theory Spec2Isabelle
  imports Complex_Main "HOL-Library.Log_Nat"
begin

section \<open>JavaScript numbers\<close>

text \<open>
  A JavaScript number is an IEEE-754 binary64 value: \<^verbatim>\<open>NaN\<close>, an infinity, or a finite double,
  given here by its exact rational value. The sign of zero is not tracked: nothing the
  controllers do (\<^verbatim>\<open>+\<close>, \<^verbatim>\<open>*\<close>, \<^verbatim>\<open>===\<close>, \<^verbatim>\<open>!\<close>) tells \<^verbatim>\<open>-0\<close> from \<^verbatim>\<open>0\<close>.
\<close>

datatype jsnum = NaN | PosInf | NegInf | Fin rat

definition pow2 :: "int \<Rightarrow> rat" where
  "pow2 e = (if 0 \<le> e then 2 ^ nat e else 1 / 2 ^ nat (- e))"

text \<open>For \<open>0 < x\<close>, the exponent \<open>e\<close> with \<open>2 ^ e \<le> x < 2 ^ (e + 1)\<close>.\<close>

definition floorLog2 :: "rat \<Rightarrow> int" where
  "floorLog2 x =
     (case quotient_of x of
        (a, b) \<Rightarrow> (let d = bitlen a - bitlen b in if pow2 d \<le> x then d else d - 1))"

definition roundHalfEven :: "rat \<Rightarrow> int" where
  "roundHalfEven x =
     (let f = \<lfloor>x\<rfloor>; r = x - of_int f
      in if r < 1 / 2 then f else if 1 / 2 < r then f + 1 else if even f then f else f + 1)"

text \<open>
  The double nearest to a rational, ties to even: 53 significant bits, exponents from
  \<open>-1022\<close> (below it the spacing stays \<open>2 ^ -1074\<close>: subnormals) to \<open>1023\<close>. The rounded
  magnitude \<open>m * ulp\<close> reaches \<open>2 ^ 1024\<close>, and the result is an infinity, when the exponent
  is beyond \<open>1023\<close> or is \<open>1023\<close> with the significand rounded up to \<open>2 ^ 53\<close>. This is how a
  number literal of a JSON body is read and how the exact result of \<^verbatim>\<open>+\<close> and \<^verbatim>\<open>*\<close> is
  rounded.
\<close>

definition round64 :: "rat \<Rightarrow> jsnum" where
  "round64 x =
     (if x = 0 then Fin 0
      else
        (let e = max (floorLog2 \<bar>x\<bar>) (- 1022);
             ulp = pow2 (e - 52);
             m = roundHalfEven (\<bar>x\<bar> / ulp);
             y = of_int m * ulp
         in if 1024 \<le> e \<or> (e = 1023 \<and> m = 2 ^ 53) then (if x < 0 then NegInf else PosInf)
            else Fin (if x < 0 then - y else y)))"

text \<open>\<^verbatim>\<open>a + b\<close> and \<^verbatim>\<open>a * b\<close> on numbers.\<close>

fun js_plus :: "jsnum \<Rightarrow> jsnum \<Rightarrow> jsnum" where
  "js_plus (Fin a) (Fin b) = round64 (a + b)"
| "js_plus (Fin a) PosInf = PosInf"
| "js_plus (Fin a) NegInf = NegInf"
| "js_plus PosInf (Fin b) = PosInf"
| "js_plus NegInf (Fin b) = NegInf"
| "js_plus PosInf PosInf = PosInf"
| "js_plus NegInf NegInf = NegInf"
| "js_plus a b = NaN"

fun js_times :: "jsnum \<Rightarrow> jsnum \<Rightarrow> jsnum" where
  "js_times (Fin a) (Fin b) = round64 (a * b)"
| "js_times (Fin a) PosInf = (if a = 0 then NaN else if 0 < a then PosInf else NegInf)"
| "js_times (Fin a) NegInf = (if a = 0 then NaN else if 0 < a then NegInf else PosInf)"
| "js_times PosInf (Fin b) = (if b = 0 then NaN else if 0 < b then PosInf else NegInf)"
| "js_times NegInf (Fin b) = (if b = 0 then NaN else if 0 < b then NegInf else PosInf)"
| "js_times PosInf PosInf = PosInf"
| "js_times PosInf NegInf = NegInf"
| "js_times NegInf PosInf = NegInf"
| "js_times NegInf NegInf = PosInf"
| "js_times a b = NaN"

text \<open>\<^verbatim>\<open>a === b\<close> on numbers: \<^verbatim>\<open>NaN\<close> equals nothing.\<close>

definition numEquals :: "jsnum \<Rightarrow> jsnum \<Rightarrow> bool" where
  "numEquals a b = (a \<noteq> NaN \<and> a = b)"

section \<open>Values of a parsed request body\<close>

text \<open>
  The handlers of \<^verbatim>\<open>controllers/orderController.js\<close> read fields of \<^verbatim>\<open>req.body\<close>, a
  parsed JSON document. A field the code only tests (\<^verbatim>\<open>!x\<close>, \<^verbatim>\<open>typeof x\<close>, \<^verbatim>\<open>===\<close>), stores
  or interpolates is a \<open>jsval\<close>; \<open>Undefined\<close> is what reading an absent key gives.
  \<open>Num q\<close> is a number written as the literal of value \<open>q\<close>; the number the program sees
  is \<open>round64 q\<close>.
\<close>

datatype jsval =
    Undefined
  | Null
  | Bool bool
  | Num rat
  | Str string
  | Arr "jsval list"
  | Obj "(string \<times> jsval) list"

text \<open>JavaScript's \<^verbatim>\<open>!!x\<close>: \<^verbatim>\<open>undefined\<close>, \<^verbatim>\<open>null\<close>, \<^verbatim>\<open>false\<close>, \<^verbatim>\<open>0\<close> and \<^verbatim>\<open>""\<close> are falsy.\<close>

fun truthy :: "jsval \<Rightarrow> bool" where
  "truthy Undefined = False"
| "truthy Null = False"
| "truthy (Bool b) = b"
| "truthy (Num q) = (round64 q \<noteq> Fin 0)"
| "truthy (Str s) = (s \<noteq> [])"
| "truthy (Arr xs) = True"
| "truthy (Obj kvs) = True"

text \<open>\<^verbatim>\<open>typeof x === 'string'\<close>.\<close>

fun isString :: "jsval \<Rightarrow> bool" where
  "isString (Str s) = True"
| "isString v = False"

text \<open>\<^verbatim>\<open>n === x\<close> for a number \<open>n\<close>: \<open>x\<close> is a number, and the same one.\<close>

fun strictlyEquals :: "jsnum \<Rightarrow> jsval \<Rightarrow> bool" where
  "strictlyEquals n (Num q) = numEquals n (round64 q)"
| "strictlyEquals n v = False"

text \<open>
  \<^verbatim>\<open>x[field]\<close> for one of the field names the controllers read (\<^verbatim>\<open>fullName\<close>, \<^verbatim>\<open>phone\<close>, ...):
  the own property of an object, \<^verbatim>\<open>undefined\<close> on a string, number, boolean or array (none
  of those names is a property of theirs). Reading from \<^verbatim>\<open>undefined\<close> or \<^verbatim>\<open>null\<close> throws in
  JavaScript; every handler tests the value it reads from (\<^verbatim>\<open>!address\<close>) before it reads, so
  the last equation is never applied to them.
\<close>

fun getField :: "jsval \<Rightarrow> string \<Rightarrow> jsval" where
  "getField (Obj kvs) k = (case map_of kvs k of Some v \<Rightarrow> v | None \<Rightarrow> Undefined)"
| "getField v k = Undefined"

section \<open>Phone numbers (controllers/whatsappController.js)\<close>

definition isDigit :: "char \<Rightarrow> bool" where
  "isDigit c = (48 \<le> (of_char c :: nat) \<and> (of_char c :: nat) \<le> 57)"

text \<open>\<^verbatim>\<open>phoneNumber.replace(/\D/g, '')\<close>: every character that is not a digit is removed.\<close>

definition cleanNumber :: "string \<Rightarrow> string" where
  "cleanNumber phoneNumber = filter isDigit phoneNumber"

definition startsWith :: "string \<Rightarrow> string \<Rightarrow> bool" where
  "startsWith s p = (take (length p) s = p)"

text \<open>
  \<^verbatim>\<open>sendMessage\<close>, lines 222-233: the number the chat path messages.
  \<^verbatim>\<open>
      const cleanNumber = phoneNumber.replace(/\D/g, '');
      if (cleanNumber.startsWith('91')) { finalNumber = cleanNumber; }
      else if (cleanNumber.startsWith('0')) { finalNumber = `91${cleanNumber.substring(1)}`; }
      else { finalNumber = `91${cleanNumber}`; }
  \<close>
\<close>

definition sendMessage_finalNumber :: "string \<Rightarrow> string" where
  "sendMessage_finalNumber phoneNumber =
     (let clean = cleanNumber phoneNumber in
      if startsWith clean ''91'' then clean
      else if startsWith clean ''0'' then ''91'' @ drop 1 clean
      else ''91'' @ clean)"

text \<open>
  \<^verbatim>\<open>sendTextSMS\<close>, lines 179-186: the number the SMS path dials is \<^verbatim>\<open>+\<close> followed by
  \<open>sendTextSMS_finalNumber\<close>.
  \<^verbatim>\<open>
      const cleanNumber = phoneNumber.replace(/\D/g, '');
      let finalNumber = cleanNumber;
      if (!finalNumber.startsWith('91') && !finalNumber.startsWith('+')) {
        finalNumber = `91${finalNumber}`;
      }
      const recipientNumber = `+${finalNumber}`;
  \<close>
\<close>

definition sendTextSMS_finalNumber :: "string \<Rightarrow> string" where
  "sendTextSMS_finalNumber phoneNumber =
     (let finalNumber = cleanNumber phoneNumber in
      if \<not> startsWith finalNumber ''91'' \<and> \<not> startsWith finalNumber ''+''
      then ''91'' @ finalNumber
      else finalNumber)"

definition recipientNumber :: "string \<Rightarrow> string" where
  "recipientNumber phoneNumber = ''+'' @ sendTextSMS_finalNumber phoneNumber"

section \<open>Asynchronous calls\<close>

text \<open>
  How awaiting an \<^verbatim>\<open>async\<close> call ends: with a value, with an exception (the message of the
  \<^verbatim>\<open>Error\<close>), or never (a promise that stays pending). Every call also returns the world
  it leaves behind.
\<close>

datatype 'a completion = Returns 'a | Throws string | Hangs

text \<open>\<^verbatim>\<open>const x = await m; rest\<close>\<close>

definition await :: "'a completion \<times> 'w \<Rightarrow> ('a \<Rightarrow> 'w \<Rightarrow> 'b completion \<times> 'w) \<Rightarrow> 'b completion \<times> 'w" where
  "await m rest =
     (case m of
        (Returns x, w) \<Rightarrow> rest x w
      | (Throws err, w) \<Rightarrow> (Throws err, w)
      | (Hangs, w) \<Rightarrow> (Hangs, w))"

text \<open>\<^verbatim>\<open>try { m } catch (error) { handler }\<close>\<close>

definition tryCatch :: "'a completion \<times> 'w \<Rightarrow> (string \<Rightarrow> 'w \<Rightarrow> 'a completion \<times> 'w) \<Rightarrow> 'a completion \<times> 'w" where
  "tryCatch m handler =
     (case m of
        (Throws err, w) \<Rightarrow> handler err w
      | (Returns x, w) \<Rightarrow> (Returns x, w)
      | (Hangs, w) \<Rightarrow> (Hangs, w))"

section \<open>Orders and messages (controllers/orderController.js)\<close>

text \<open>
  What \<^verbatim>\<open>item.price\<close> and \<^verbatim>\<open>item.quantity\<close> hold: nothing, \<^verbatim>\<open>null\<close>, a number literal, or any
  other value (a string, boolean, array or object), given by the two things \<^verbatim>\<open>||\<close> and \<^verbatim>\<open>*\<close>
  observe of it: whether it is truthy, and the number that \<^verbatim>\<open>ToNumber\<close> makes of it.
\<close>

datatype numeric = NUndefined | NNull | NNum rat | NOther bool jsnum

record item =
  name :: jsval
  price :: numeric
  quantity :: numeric

text \<open>
  An element of the \<^verbatim>\<open>items\<close> array: \<^verbatim>\<open>null\<close> (reading a property of it throws), an object,
  or any other value (a number, string, boolean or array: its \<^verbatim>\<open>price\<close>, \<^verbatim>\<open>quantity\<close> and
  \<^verbatim>\<open>name\<close> are \<^verbatim>\<open>undefined\<close>).
  The \<^verbatim>\<open>items\<close> field itself: absent or falsy (\<^verbatim>\<open>!items\<close>), an array, or a truthy value that
  is not an array (a non-empty string, a non-zero number, \<^verbatim>\<open>true\<close>, an object: it has no
  callable \<^verbatim>\<open>reduce\<close> or \<^verbatim>\<open>map\<close>).
\<close>

datatype element = ElemNull | ElemOther | ElemObject item

datatype items_value = NoItems | NotAnArray | ItemsArray "element list"

text \<open>\<^verbatim>\<open>ToNumber\<close> as \<^verbatim>\<open>*\<close> applies it.\<close>

fun toNumber :: "numeric \<Rightarrow> jsnum" where
  "toNumber NUndefined = NaN"
| "toNumber NNull = Fin 0"
| "toNumber (NNum q) = round64 q"
| "toNumber (NOther isTruthy n) = n"

text \<open>\<^verbatim>\<open>item.quantity || 1\<close>\<close>

fun quantityOr1 :: "numeric \<Rightarrow> numeric" where
  "quantityOr1 NUndefined = NNum 1"
| "quantityOr1 NNull = NNum 1"
| "quantityOr1 (NNum q) = (if round64 q = Fin 0 then NNum 1 else NNum q)"
| "quantityOr1 (NOther isTruthy n) = (if isTruthy then NOther isTruthy n else NNum 1)"

text \<open>
  \<^verbatim>\<open>items.reduce((sum, item) => sum + (item.price * (item.quantity || 1)), 0)\<close>:
  \<open>reduceTotal sum es\<close> is the reduction with \<open>sum\<close> accumulated and \<open>es\<close> still to visit.
  It throws a \<^verbatim>\<open>TypeError\<close> at a \<^verbatim>\<open>null\<close> element, and on a value that has no \<^verbatim>\<open>reduce\<close>.
\<close>

fun reduceTotal :: "jsnum \<Rightarrow> element list \<Rightarrow> string + jsnum" where
  "reduceTotal acc [] = Inr acc"
| "reduceTotal acc (ElemNull # es) = Inl ''Cannot read properties of null (reading 'price')''"
| "reduceTotal acc (ElemOther # es) = reduceTotal (js_plus acc (js_times NaN (Fin 1))) es"
| "reduceTotal acc (ElemObject it # es) =
     reduceTotal
       (js_plus acc (js_times (toNumber (price it)) (toNumber (quantityOr1 (quantity it))))) es"

fun calculatedTotal :: "items_value \<Rightarrow> string + jsnum" where
  "calculatedTotal (ItemsArray es) = reduceTotal (Fin 0) es"
| "calculatedTotal NotAnArray = Inl ''items.reduce is not a function''"
| "calculatedTotal NoItems = Inl ''Cannot read properties of undefined (reading 'reduce')''"

text \<open>
  The body of a request, with the fields the three handlers destructure from it. The
  gateway's two identifiers are strings when present (another value would be coerced by
  \<^verbatim>\<open>+\<close>).
\<close>

record request_body =
  items :: items_value
  address :: jsval
  paymentMethod :: jsval
  total :: jsval
  paymentId :: jsval
  status :: jsval
  razorpay_order_id :: "string option"
  razorpay_payment_id :: "string option"
  razorpay_signature :: jsval

text \<open>
  The document handed to \<^verbatim>\<open>insertOne\<close>. \<open>order_razorpayOrderId\<close> is \<open>Undefined\<close> and
  \<open>order_createdAt\<close> is \<open>None\<close> where the object has no such key.
\<close>

record order =
  order_items :: items_value
  order_address :: jsval
  order_paymentMethod :: jsval
  order_total :: jsval
  order_paymentId :: jsval
  order_razorpayOrderId :: jsval
  order_status :: jsval
  order_createdAt :: "int option"

text \<open>
  The two notification texts. The templates are fixed; a message is identified by the
  values interpolated into its template, in the order they appear there.
  \<open>AdminMessage fullName phone street city state zipCode lines total payment paymentId\<close>,
  \<open>CustomerMessage fullName total paymentMethod\<close>.
\<close>

datatype message =
    AdminMessage jsval jsval jsval jsval jsval jsval "(jsval \<times> numeric) list" jsval string jsval
  | CustomerMessage jsval jsval string

text \<open>
  \<^verbatim>\<open>items.map(item => `- ${item.name} x ${item.quantity}`)\<close>: a \<^verbatim>\<open>TypeError\<close> at a \<^verbatim>\<open>null\<close>
  element, and on a value that has no \<^verbatim>\<open>map\<close>.
\<close>

fun mapLines :: "element list \<Rightarrow> string + (jsval \<times> numeric) list" where
  "mapLines [] = Inr []"
| "mapLines (ElemNull # es) = Inl ''Cannot read properties of null (reading 'name')''"
| "mapLines (ElemOther # es) =
     (case mapLines es of Inl err \<Rightarrow> Inl err | Inr ls \<Rightarrow> Inr ((Undefined, NUndefined) # ls))"
| "mapLines (ElemObject it # es) =
     (case mapLines es of Inl err \<Rightarrow> Inl err | Inr ls \<Rightarrow> Inr ((name it, quantity it) # ls))"

fun itemLines :: "items_value \<Rightarrow> string + (jsval \<times> numeric) list" where
  "itemLines (ItemsArray es) = mapLines es"
| "itemLines NotAnArray = Inl ''items.map is not a function''"
| "itemLines NoItems = Inl ''Cannot read properties of undefined (reading 'map')''"

definition generateAdminMessage ::
  "jsval \<Rightarrow> items_value \<Rightarrow> jsval \<Rightarrow> jsval \<Rightarrow> jsval \<Rightarrow> string + message" where
  "generateAdminMessage addr its tot method pid =
     (case itemLines its of
        Inl err \<Rightarrow> Inl err
      | Inr ls \<Rightarrow>
          Inr (AdminMessage (getField addr ''fullName'') (getField addr ''phone'')
                 (getField addr ''street'') (getField addr ''city'') (getField addr ''state'')
                 (getField addr ''zipCode'')
                 ls
                 tot
                 (if method = Str ''prepaid'' then ''Prepaid'' else ''COD'')
                 (if method = Str ''prepaid'' then pid else Str ''N/A'')))"

definition generateCustomerMessage :: "jsval \<Rightarrow> jsval \<Rightarrow> jsval \<Rightarrow> message" where
  "generateCustomerMessage addr tot method =
     CustomerMessage (getField addr ''fullName'') tot
       (if method = Str ''prepaid'' then ''Prepaid'' else ''Cash on Delivery'')"

section \<open>The world outside the controllers\<close>

text \<open>What \<^verbatim>\<open>razorpay.orders.create\<close> is given and what it answers.\<close>

record razorpay_options =
  amount :: jsnum
  currency :: string
  receipt :: int

record razorpay_order =
  rz_id :: string
  rz_amount :: jsnum
  rz_currency :: string

text \<open>
  The calls that leave the process, in the order they are made, and the entries into
  the two send functions of the notification service.
\<close>

datatype event =
    RazorpayCreate razorpay_options
  | DbInsert order
  | ChatAttempt jsval message
  | ChatSend string message
  | SmsAttempt jsval message
  | SmsCreate string message

record world =
  orders :: "order list"
  trace :: "event list"

definition logged :: "event \<Rightarrow> world \<Rightarrow> world" where
  "logged ev w = w\<lparr>trace := trace w @ [ev]\<rparr>"

text \<open>
  The chat session as one call of \<^verbatim>\<open>sendMessage\<close> finds it: \<^verbatim>\<open>this.isReady\<close> when the
  call starts, how awaiting \<^verbatim>\<open>this.initializationPromise\<close> ends, \<^verbatim>\<open>this.isReady\<close> at each
  poll of the waiting loop, whether \<^verbatim>\<open>this.client\<close> is set, and what the client's
  \<^verbatim>\<open>isRegisteredUser\<close> and \<^verbatim>\<open>sendMessage\<close> do (\<open>Inl\<close>: they throw).
\<close>

datatype promise = Pending | Fulfilled | Rejected string

record chat =
  isReady :: bool
  initializationPromise :: promise
  isReadyAtPoll :: "nat \<Rightarrow> bool"
  clientPresent :: bool
  isRegisteredUser :: "string \<Rightarrow> string + bool"
  client_sendMessage :: "string \<Rightarrow> message \<Rightarrow> string + string option"

text \<open>
  The collaborators of one request: the gateway secret of the environment, the HMAC
  of Node's \<^verbatim>\<open>crypto\<close> (key, data, hex digest), the payment gateway, the store
  (\<^verbatim>\<open>getDb\<close> throws when there is no connection; \<^verbatim>\<open>insertOne\<close> rejects or gives the inserted
  id), the clock, the chat session at the first and at the second call of \<^verbatim>\<open>sendMessage\<close>,
  and the SMS gateway (\<open>twilioClient\<close> is \<open>Some msg\<close> when constructing the client throws
  \<open>msg\<close>).
\<close>

record env =
  RAZORPAY_KEY_SECRET :: "string option"
  createHmac_sha256_hex :: "string \<Rightarrow> string \<Rightarrow> string"
  razorpay_orders_create :: "razorpay_options \<Rightarrow> string + razorpay_order"
  dbConnected :: bool
  insertOne :: "order \<Rightarrow> string + nat"
  now :: int
  adminChat :: chat
  customerChat :: chat
  twilioClient :: "string option"
  messages_create :: "string \<Rightarrow> message \<Rightarrow> string + string"

section \<open>The notification service (controllers/whatsappController.js)\<close>

text \<open>
  What a send returns: \<^verbatim>\<open>{ success, messageId, error, phoneNumber, provider }\<close>, a key that
  the object does not have being \<open>None\<close>. The chat path's \<^verbatim>\<open>sent: true\<close> repeats \<open>success\<close>.
  A message id is the transport's, or \<^verbatim>\<open>`msg_${Date.now()}`\<close> when the transport gave none.
\<close>

datatype message_id = TransportId string | LocalId int

record send_result =
  success :: bool
  messageId :: "message_id option"
  error :: "string option"
  phoneNumber :: "jsval option"
  provider :: "string option"

text \<open>
  \<^verbatim>\<open>
  async waitForReady() {
    if (this.isReady) return true;
    await this.initializationPromise;
    for (let i = 0; i < 30; i++) {
      if (this.isReady) return true;
      await new Promise(resolve => setTimeout(resolve, 1000));
    }
    throw new Error('WhatsApp client not ready after waiting');
  }
  \<close>
  \<open>pollReady ready i n\<close> is the loop at counter \<open>i\<close> with \<open>n\<close> rounds left.
\<close>

fun pollReady :: "(nat \<Rightarrow> bool) \<Rightarrow> nat \<Rightarrow> nat \<Rightarrow> bool completion" where
  "pollReady ready i 0 = Throws ''WhatsApp client not ready after waiting''"
| "pollReady ready i (Suc n) = (if ready i then Returns True else pollReady ready (Suc i) n)"

definition waitForReady :: "chat \<Rightarrow> bool completion" where
  "waitForReady c =
     (if isReady c then Returns True
      else case initializationPromise c of
             Pending \<Rightarrow> Hangs
           | Rejected err \<Rightarrow> Throws err
           | Fulfilled \<Rightarrow> pollReady (isReadyAtPoll c) 0 30)"

text \<open>
  \<^verbatim>\<open>phoneNumber.replace\<close> on a value that is not a string: a \<^verbatim>\<open>TypeError\<close>.
\<close>

fun replaceTypeError :: "jsval \<Rightarrow> string" where
  "replaceTypeError Undefined = ''Cannot read properties of undefined (reading 'replace')''"
| "replaceTypeError Null = ''Cannot read properties of null (reading 'replace')''"
| "replaceTypeError v = ''phoneNumber.replace is not a function''"

text \<open>
  The \<^verbatim>\<open>try\<close> block of \<^verbatim>\<open>sendMessage\<close> (lines 216-279). The optional \<^verbatim>\<open>getChatById\<close> lookup
  only logs and has a handler of its own, so it leaves no mark here.
\<close>

definition sendMessage_try :: "env \<Rightarrow> chat \<Rightarrow> jsval \<Rightarrow> message \<Rightarrow> world \<Rightarrow> send_result completion \<times> world" where
  "sendMessage_try e c phone msg w =
     (case waitForReady c of
        Hangs \<Rightarrow> (Hangs, w)
      | Throws err \<Rightarrow> (Throws err, w)
      | Returns ready \<Rightarrow>
          if \<not> clientPresent c then (Throws ''WhatsApp client not initialized'', w)
          else
            (case phone of
               Str p \<Rightarrow>
                 (let finalNumber = sendMessage_finalNumber p;
                      chatId = finalNumber @ ''@c.us''
                  in case isRegisteredUser c chatId of
                       Inl err \<Rightarrow> (Throws err, w)
                     | Inr False \<Rightarrow>
                         (Returns \<lparr>success = False, messageId = None,
                                   error = Some ''Phone number not registered on WhatsApp'',
                                   phoneNumber = Some (Str finalNumber), provider = None\<rparr>, w)
                     | Inr True \<Rightarrow>
                         (case client_sendMessage c chatId msg of
                            Inl sendError \<Rightarrow> (Throws sendError, logged (ChatSend chatId msg) w)
                          | Inr result \<Rightarrow>
                              (Returns \<lparr>success = True,
                                        messageId = Some (case result of
                                                            Some i \<Rightarrow> TransportId i
                                                          | None \<Rightarrow> LocalId (now e)),
                                        error = None,
                                        phoneNumber = Some (Str finalNumber), provider = None\<rparr>,
                               logged (ChatSend chatId msg) w)))
             | notAString \<Rightarrow> (Throws (replaceTypeError notAString), w)))"

text \<open>
  \<^verbatim>\<open>sendMessage\<close>: the \<^verbatim>\<open>try\<close> block, and the handler of lines 281-288 that turns every
  exception into a failed result.
\<close>

definition sendMessage :: "env \<Rightarrow> chat \<Rightarrow> jsval \<Rightarrow> message \<Rightarrow> world \<Rightarrow> send_result completion \<times> world" where
  "sendMessage e c phone msg w =
     tryCatch (sendMessage_try e c phone msg (logged (ChatAttempt phone msg) w))
       (\<lambda>err w'. (Returns \<lparr>success = False, messageId = None, error = Some err,
                            phoneNumber = Some phone, provider = None\<rparr>, w'))"

text \<open>
  \<^verbatim>\<open>sendTextSMS\<close> (lines 170-211). The client is made before the \<^verbatim>\<open>try\<close> block
  (\<^verbatim>\<open>const client = require('twilio')(accountSid, authToken)\<close>, line 175); the rest is
  inside it.
\<close>

definition sendTextSMS :: "env \<Rightarrow> jsval \<Rightarrow> message \<Rightarrow> world \<Rightarrow> send_result completion \<times> world" where
  "sendTextSMS e phone msg w =
     (let w1 = logged (SmsAttempt phone msg) w in
      case twilioClient e of
        Some err \<Rightarrow> (Throws err, w1)
      | None \<Rightarrow>
          tryCatch
            (case phone of
               Str p \<Rightarrow>
                 (case messages_create e (recipientNumber p) msg of
                    Inl err \<Rightarrow> (Throws err, logged (SmsCreate (recipientNumber p) msg) w1)
                  | Inr sid \<Rightarrow>
                      (Returns \<lparr>success = True, messageId = Some (TransportId sid), error = None,
                                phoneNumber = None, provider = Some ''Twilio''\<rparr>,
                       logged (SmsCreate (recipientNumber p) msg) w1))
             | notAString \<Rightarrow> (Throws (replaceTypeError notAString), w1))
            (\<lambda>err w'. (Returns \<lparr>success = False, messageId = None, error = Some err,
                                 phoneNumber = None, provider = Some ''Twilio''\<rparr>, w')))"

section \<open>The order controller (controllers/orderController.js)\<close>

text \<open>
  \<^verbatim>\<open>saveOrderToDatabase\<close>: \<^verbatim>\<open>getDb()\<close>, then \<^verbatim>\<open>insertOne({...orderData, createdAt: new Date()})\<close>.
  The result is the \<^verbatim>\<open>insertedId\<close>.
\<close>

definition saveOrderToDatabase :: "env \<Rightarrow> order \<Rightarrow> world \<Rightarrow> nat completion \<times> world" where
  "saveOrderToDatabase e orderData w =
     (if \<not> dbConnected e then (Throws ''Database not connected'', w)
      else
        (let orderToSave = orderData\<lparr>order_createdAt := Some (now e)\<rparr> in
         case insertOne e orderToSave of
           Inl err \<Rightarrow> (Throws err, logged (DbInsert orderToSave) w)
         | Inr insertedId \<Rightarrow>
             (Returns insertedId,
              logged (DbInsert orderToSave) (w\<lparr>orders := orders w @ [orderToSave]\<rparr>))))"

text \<open>The report \<^verbatim>\<open>{ admin, customer, sms }\<close> of \<^verbatim>\<open>sendNotifications\<close>, key by key.\<close>

type_synonym report = "(string \<times> string) list"

definition sentOrFailed :: "send_result \<Rightarrow> string" where
  "sentOrFailed r = (if success r then ''Sent'' else ''Failed'')"

text \<open>
  \<^verbatim>\<open>sendNotifications\<close> (lines 73-87): the two texts are made first (making the admin's
  text throws when \<^verbatim>\<open>items.map\<close> does), then the three sends are awaited one after the
  other. The function has no handler of its own.
\<close>

definition sendNotifications ::
  "env \<Rightarrow> jsval \<Rightarrow> items_value \<Rightarrow> jsval \<Rightarrow> jsval \<Rightarrow> jsval \<Rightarrow> world \<Rightarrow> report completion \<times> world" where
  "sendNotifications e addr its tot method pid w =
     (case generateAdminMessage addr its tot method pid of
        Inl err \<Rightarrow> (Throws err, w)
      | Inr adminMessage \<Rightarrow>
          (let customerMessage = generateCustomerMessage addr tot method in
           await (sendMessage e (adminChat e) (Str ''919301680755'') adminMessage w) (\<lambda>adminResult w1.
           await (sendMessage e (customerChat e) (getField addr ''phone'') customerMessage w1) (\<lambda>customerResult w2.
           await (sendTextSMS e (getField addr ''phone'') customerMessage w2) (\<lambda>smsResult w3.
             (Returns [(''admin'', sentOrFailed adminResult),
                       (''customer'', sentOrFailed customerResult),
                       (''sms'', sentOrFailed smsResult)], w3))))))"

text \<open>What a handler answers: \<^verbatim>\<open>res.status(code).json(reply)\<close>.\<close>

datatype reply =
    ErrorReply string
  | GatewayOrderReply string jsnum string
  | OrderReply string nat report

record response =
  statusCode :: nat
  json :: reply

definition respond :: "nat \<Rightarrow> reply \<Rightarrow> world \<Rightarrow> response completion \<times> world" where
  "respond code r w = (Returns \<lparr>statusCode = code, json = r\<rparr>, w)"

definition requiredAddressFields :: "string list" where
  "requiredAddressFields =
     [''fullName'', ''street'', ''city'', ''state'', ''zipCode'', ''email'', ''phone'']"

text \<open>
  The loop of lines 102-106: the first required field that is falsy or not a string.
\<close>

fun invalidAddressField :: "jsval \<Rightarrow> string list \<Rightarrow> string option" where
  "invalidAddressField addr [] = None"
| "invalidAddressField addr (field # others) =
     (if \<not> truthy (getField addr field) \<or> \<not> isString (getField addr field) then Some field
      else invalidAddressField addr others)"

text \<open>
  The \<^verbatim>\<open>try\<close> block of \<^verbatim>\<open>createOrder\<close> (lines 115-154). It is entered after
  \<^verbatim>\<open>calculatedTotal !== total\<close> was false, so \<^verbatim>\<open>total\<close> is a number, the number \<open>calculated\<close>;
  \<^verbatim>\<open>total * 100\<close> is computed from it.
\<close>

definition createOrder_try ::
  "env \<Rightarrow> items_value \<Rightarrow> jsval \<Rightarrow> jsval \<Rightarrow> jsval \<Rightarrow> jsnum \<Rightarrow> world \<Rightarrow> response completion \<times> world" where
  "createOrder_try e its addr method tot calculated w =
     (if method = Str ''prepaid'' then
        (let options = \<lparr>amount = js_times calculated (Fin 100), currency = ''INR'',
                        receipt = now e\<rparr> in
         case razorpay_orders_create e options of
           Inl err \<Rightarrow> (Throws err, logged (RazorpayCreate options) w)
         | Inr ord \<Rightarrow>
             respond 200 (GatewayOrderReply (rz_id ord) (rz_amount ord) (rz_currency ord))
               (logged (RazorpayCreate options) w))
      else if method = Str ''cod'' then
        (let orderData = \<lparr>order_items = its, order_address = addr, order_paymentMethod = method,
                          order_total = tot, order_paymentId = Null,
                          order_razorpayOrderId = Undefined, order_status = Str ''confirmed'',
                          order_createdAt = None\<rparr> in
         await (saveOrderToDatabase e orderData w) (\<lambda>insertedId w1.
         await (sendNotifications e addr its tot method Null w1) (\<lambda>notifications w2.
           respond 200 (OrderReply ''COD Order placed successfully'' insertedId notifications) w2)))
      else respond 400 (ErrorReply ''Invalid payment method'') w)"

text \<open>
  \<^verbatim>\<open>createOrder\<close> (lines 92-159). The three checks of lines 96-112 stand before the \<^verbatim>\<open>try\<close>
  block of line 114: an exception of \<^verbatim>\<open>items.reduce\<close> is not caught, the handler's promise
  is rejected and no response is sent (\<open>Throws\<close>).
\<close>

definition createOrder :: "env \<Rightarrow> request_body \<Rightarrow> world \<Rightarrow> response completion \<times> world" where
  "createOrder e b w =
     (if items b = NoItems \<or> \<not> truthy (address b) \<or> \<not> truthy (paymentMethod b)
         \<or> \<not> truthy (total b)
      then respond 400 (ErrorReply ''Missing required fields'') w
      else
        (case invalidAddressField (address b) requiredAddressFields of
           Some field \<Rightarrow>
             respond 400 (ErrorReply (''Address field '' @ [CHR 0x22] @ field @ [CHR 0x22]
                                       @ '' is required and must be a string'')) w
         | None \<Rightarrow>
             (case calculatedTotal (items b) of
                Inl err \<Rightarrow> (Throws err, w)
              | Inr calculated \<Rightarrow>
                  if \<not> strictlyEquals calculated (total b)
                  then respond 400 (ErrorReply ''Total does not match the sum of item prices'') w
                  else
                    tryCatch
                      (createOrder_try e (items b) (address b) (paymentMethod b) (total b)
                         calculated w)
                      (\<lambda>err w'. respond 500 (ErrorReply (''Error creating order: '' @ err)) w'))))"

text \<open>
  \<^verbatim>\<open>crypto.createHmac('sha256', process.env.RAZORPAY_KEY_SECRET)
        .update(razorpay_order_id + '|' + razorpay_payment_id).digest('hex')\<close>;
  \<^verbatim>\<open>createHmac\<close> throws a \<^verbatim>\<open>TypeError\<close> when the key is \<^verbatim>\<open>undefined\<close> (its message is
  abridged here).
\<close>

definition generatedSignature :: "env \<Rightarrow> string \<Rightarrow> string \<Rightarrow> string completion" where
  "generatedSignature e order_id payment_id =
     (case RAZORPAY_KEY_SECRET e of
        None \<Rightarrow> Throws ''The key argument must be of type string. Received undefined''
      | Some secret \<Rightarrow> Returns (createHmac_sha256_hex e secret (order_id @ ''|'' @ payment_id)))"

text \<open>
  The \<^verbatim>\<open>try\<close> block of \<^verbatim>\<open>verifyPayment\<close> (lines 183-214). The comparison is
  \<^verbatim>\<open>generatedSignature === razorpay_signature\<close>: equality of strings.
\<close>

definition verifyPayment_try ::
  "env \<Rightarrow> string \<Rightarrow> string \<Rightarrow> jsval \<Rightarrow> items_value \<Rightarrow> jsval \<Rightarrow> jsval \<Rightarrow> world \<Rightarrow> response completion \<times> world" where
  "verifyPayment_try e order_id payment_id signature its addr tot w =
     await (generatedSignature e order_id payment_id, w) (\<lambda>generated w0.
       if Str generated = signature then
         (let orderData = \<lparr>order_items = its, order_address = addr,
                           order_paymentMethod = Str ''prepaid'', order_total = tot,
                           order_paymentId = Str payment_id,
                           order_razorpayOrderId = Str order_id,
                           order_status = Str ''confirmed'', order_createdAt = None\<rparr> in
          await (saveOrderToDatabase e orderData w0) (\<lambda>insertedId w1.
          await (sendNotifications e addr its tot (Str ''prepaid'') (Str payment_id) w1) (\<lambda>notifications w2.
            respond 200 (OrderReply ''Payment verified and order saved successfully''
                           insertedId notifications) w2)))
       else respond 400 (ErrorReply ''Invalid payment signature'') w0)"

definition verifyPayment :: "env \<Rightarrow> request_body \<Rightarrow> world \<Rightarrow> response completion \<times> world" where
  "verifyPayment e b w =
     (case (razorpay_order_id b, razorpay_payment_id b) of
        (Some order_id, Some payment_id) \<Rightarrow>
          if order_id = [] \<or> payment_id = [] \<or> \<not> truthy (razorpay_signature b)
          then respond 400 (ErrorReply ''Missing required fields for verification'') w
          else if items b = NoItems \<or> \<not> truthy (address b) \<or> \<not> truthy (total b)
          then respond 400 (ErrorReply ''Missing order details for saving'') w
          else
            tryCatch
              (verifyPayment_try e order_id payment_id (razorpay_signature b) (items b)
                 (address b) (total b) w)
              (\<lambda>err w'. respond 500 (ErrorReply (''Error verifying payment: '' @ err)) w')
      | missing \<Rightarrow> respond 400 (ErrorReply ''Missing required fields for verification'') w)"

text \<open>\<^verbatim>\<open>saveOrder\<close>, the legacy endpoint (lines 224-260).\<close>

definition saveOrder :: "env \<Rightarrow> request_body \<Rightarrow> world \<Rightarrow> response completion \<times> world" where
  "saveOrder e b w =
     (if items b = NoItems \<or> \<not> truthy (address b) \<or> \<not> truthy (paymentMethod b)
         \<or> \<not> truthy (total b) \<or> \<not> truthy (status b)
      then respond 400 (ErrorReply ''Missing required fields for saving order'') w
      else if \<not> truthy (getField (address b) ''phone'')
              \<or> \<not> isString (getField (address b) ''phone'')
      then respond 400 (ErrorReply ''Phone number is required and must be a string'') w
      else
        tryCatch
          (let orderData = \<lparr>order_items = items b, order_address = address b,
                            order_paymentMethod = paymentMethod b, order_total = total b,
                            order_paymentId = (if paymentMethod b = Str ''prepaid''
                                               then paymentId b else Null),
                            order_razorpayOrderId = Undefined, order_status = status b,
                            order_createdAt = None\<rparr> in
           await (saveOrderToDatabase e orderData w) (\<lambda>insertedId w1.
           await (sendNotifications e (address b) (items b) (total b) (paymentMethod b) (paymentId b) w1)
             (\<lambda>notifications w2.
               respond 200 (OrderReply ''Order saved successfully'' insertedId notifications) w2)))
          (\<lambda>err w'. respond 500 (ErrorReply ''Failed to save order to database'') w'))"

section \<open>Notions the properties are stated with\<close>

text \<open>
  The sum over the items of price times quantity, as a number of mathematics: each
  quantity as it is written, no rounding. There is no such sum (\<open>None\<close>) when \<^verbatim>\<open>items\<close> is
  not an array of objects that all carry a numeric price and quantity.
\<close>

fun exactAmount :: "numeric \<Rightarrow> rat option" where
  "exactAmount (NNum q) = Some q"
| "exactAmount v = None"

fun exactSum :: "element list \<Rightarrow> rat option" where
  "exactSum [] = Some 0"
| "exactSum (ElemObject it # es) =
     (case (exactAmount (price it), exactAmount (quantity it), exactSum es) of
        (Some p, Some q, Some s) \<Rightarrow> Some (p * q + s)
      | other \<Rightarrow> None)"
| "exactSum (other # es) = None"

fun sumPriceTimesQuantity :: "items_value \<Rightarrow> rat option" where
  "sumPriceTimesQuantity (ItemsArray es) = exactSum es"
| "sumPriceTimesQuantity other = None"

text \<open>
  The sum of price times quantity with a quantity that is absent, \<^verbatim>\<open>null\<close> or \<open>0\<close> counted as
  \<open>1\<close>, added up from the left in the program's arithmetic.
\<close>

fun countedQuantity :: "numeric \<Rightarrow> jsnum" where
  "countedQuantity NUndefined = Fin 1"
| "countedQuantity NNull = Fin 1"
| "countedQuantity (NNum q) = (if round64 q = Fin 0 then Fin 1 else round64 q)"
| "countedQuantity (NOther isTruthy n) = (if isTruthy then n else Fin 1)"

definition sumWithCountedQuantities :: "item list \<Rightarrow> jsnum" where
  "sumWithCountedQuantities its =
     foldl (\<lambda>sum it. js_plus sum (js_times (toNumber (price it)) (countedQuantity (quantity it))))
       (Fin 0) its"

text \<open>
  The same sum as a number of mathematics, and the orders on which the two agree: every
  price is a number or \<^verbatim>\<open>null\<close>, every quantity a number, \<^verbatim>\<open>null\<close> or absent, and every price,
  counted quantity, product and partial sum is a whole number of magnitude at most
  \<open>2 ^ 53\<close>, where doubles are exact.
\<close>

fun amountOf :: "numeric \<Rightarrow> rat" where
  "amountOf (NNum q) = q"
| "amountOf v = 0"

fun countOf :: "numeric \<Rightarrow> rat" where
  "countOf (NNum q) = (if q = 0 then 1 else q)"
| "countOf v = 1"

definition exactCountedSum :: "item list \<Rightarrow> rat" where
  "exactCountedSum its = sum_list (map (\<lambda>it. amountOf (price it) * countOf (quantity it)) its)"

fun numberOrNull :: "numeric \<Rightarrow> bool" where
  "numberOrNull (NNum q) = True"
| "numberOrNull NNull = True"
| "numberOrNull v = False"

fun numberOrMissing :: "numeric \<Rightarrow> bool" where
  "numberOrMissing (NOther isTruthy n) = False"
| "numberOrMissing v = True"

definition wholeAmount :: "rat \<Rightarrow> bool" where
  "wholeAmount x = (of_int \<lfloor>x\<rfloor> = x \<and> \<bar>x\<bar> \<le> 2 ^ 53)"

fun withinExactRange :: "rat \<Rightarrow> item list \<Rightarrow> bool" where
  "withinExactRange acc [] = True"
| "withinExactRange acc (it # its) =
     (numberOrNull (price it) \<and> numberOrMissing (quantity it)
      \<and> wholeAmount (amountOf (price it)) \<and> wholeAmount (countOf (quantity it))
      \<and> wholeAmount (amountOf (price it) * countOf (quantity it))
      \<and> wholeAmount (acc + amountOf (price it) * countOf (quantity it))
      \<and> withinExactRange (acc + amountOf (price it) * countOf (quantity it)) its)"

text \<open>The two invariants of a stored order, as the data model words them.\<close>

definition paymentIdPresent :: "order \<Rightarrow> bool" where
  "paymentIdPresent d = (order_paymentId d \<noteq> Null \<and> order_paymentId d \<noteq> Undefined)"

definition paymentIdInvariant :: "order \<Rightarrow> bool" where
  "paymentIdInvariant d =
     (paymentIdPresent d
      = (order_paymentMethod d = Str ''prepaid'' \<and> order_status d = Str ''confirmed''))"

definition totalInvariant :: "order \<Rightarrow> bool" where
  "totalInvariant d =
     (case sumPriceTimesQuantity (order_items d) of
        Some s \<Rightarrow> order_total d = Num s
      | None \<Rightarrow> False)"

definition orderInvariant :: "order \<Rightarrow> bool" where
  "orderInvariant d = (paymentIdInvariant d \<and> totalInvariant d)"

text \<open>A signature with bit \<open>k\<close> of its character \<open>i\<close> flipped.\<close>

definition flipBit :: "nat \<Rightarrow> nat \<Rightarrow> string \<Rightarrow> string" where
  "flipBit i k s = s[i := char_of (flip_bit k (of_char (s ! i) :: nat))]"

text \<open>The entries into the two send functions, among the events.\<close>

fun isAttempt :: "event \<Rightarrow> bool" where
  "isAttempt (ChatAttempt phone msg) = True"
| "isAttempt (SmsAttempt phone msg) = True"
| "isAttempt ev = False"

text \<open>
  A chat send reaches the transport: the session gets ready, the client is there and the
  number is a string that is registered. It goes through when the transport then does
  not throw. An SMS send goes through: the client could be made, the number is a string
  and the gateway does not reject the message.
\<close>

definition chatReached :: "chat \<Rightarrow> jsval \<Rightarrow> bool" where
  "chatReached c phone =
     (waitForReady c = Returns True \<and> clientPresent c \<and>
      (case phone of
         Str p \<Rightarrow> isRegisteredUser c (sendMessage_finalNumber p @ ''@c.us'') = Inr True
       | other \<Rightarrow> False))"

definition chatDelivers :: "chat \<Rightarrow> jsval \<Rightarrow> message \<Rightarrow> bool" where
  "chatDelivers c phone msg =
     (chatReached c phone \<and>
      (case phone of
         Str p \<Rightarrow> \<not> isl (client_sendMessage c (sendMessage_finalNumber p @ ''@c.us'') msg)
       | other \<Rightarrow> False))"

definition smsDelivers :: "env \<Rightarrow> jsval \<Rightarrow> message \<Rightarrow> bool" where
  "smsDelivers e phone msg =
     (twilioClient e = None \<and>
      (case phone of
         Str p \<Rightarrow> \<not> isl (messages_create e (recipientNumber p) msg)
       | other \<Rightarrow> False))"

text \<open>
  The events one call of \<^verbatim>\<open>sendMessage\<close>, and one call of \<^verbatim>\<open>sendTextSMS\<close>, adds to the
  trace: the attempt, and the call of the transport when it is reached.
\<close>

definition chatEvents :: "chat \<Rightarrow> jsval \<Rightarrow> message \<Rightarrow> event list" where
  "chatEvents c phone msg =
     ChatAttempt phone msg #
     (case phone of
        Str p \<Rightarrow>
          if chatReached c phone then [ChatSend (sendMessage_finalNumber p @ ''@c.us'') msg] else []
      | other \<Rightarrow> [])"

definition smsEvents :: "env \<Rightarrow> jsval \<Rightarrow> message \<Rightarrow> event list" where
  "smsEvents e phone msg =
     SmsAttempt phone msg #
     (case phone of
        Str p \<Rightarrow> if twilioClient e = None then [SmsCreate (recipientNumber p) msg] else []
      | other \<Rightarrow> [])"

text \<open>
  The events one call of \<^verbatim>\<open>sendNotifications\<close> adds when it runs to its end, and its report,
  from the two texts and from what each send does.
\<close>

definition notificationEvents :: "env \<Rightarrow> jsval \<Rightarrow> message \<Rightarrow> message \<Rightarrow> event list" where
  "notificationEvents e addr adminMessage customerMessage =
     chatEvents (adminChat e) (Str ''919301680755'') adminMessage
     @ chatEvents (customerChat e) (getField addr ''phone'') customerMessage
     @ smsEvents e (getField addr ''phone'') customerMessage"

definition sentIf :: "bool \<Rightarrow> string" where
  "sentIf delivered = (if delivered then ''Sent'' else ''Failed'')"

definition deliveryReport :: "env \<Rightarrow> jsval \<Rightarrow> message \<Rightarrow> message \<Rightarrow> report" where
  "deliveryReport e addr adminMessage customerMessage =
     [(''admin'', sentIf (chatDelivers (adminChat e) (Str ''919301680755'') adminMessage)),
      (''customer'', sentIf (chatDelivers (customerChat e) (getField addr ''phone'') customerMessage)),
      (''sms'', sentIf (smsDelivers e (getField addr ''phone'') customerMessage))]"



section \<open>Sample requests and collaborators\<close>

text \<open>
  Concrete inputs at which the theorems below are instantiated. \<open>sampleDigest\<close> stands in
  for the HMAC there: 64 characters computed from key and data (the theorems hold for
  every digest function).
\<close>

definition sampleAddress :: jsval where
  "sampleAddress =
     Obj [(''fullName'', Str ''Asha''), (''street'', Str ''1 MG Road''),
          (''city'', Str ''Indore''), (''state'', Str ''MP''), (''zipCode'', Str ''452001''),
          (''email'', Str ''asha@example.in''), (''phone'', Str ''09301680755'')]"

definition chatUp :: chat where
  "chatUp =
     \<lparr>isReady = True, initializationPromise = Fulfilled, isReadyAtPoll = (\<lambda>i. True),
      clientPresent = True, isRegisteredUser = (\<lambda>chatId. Inr True),
      client_sendMessage = (\<lambda>chatId msg. Inr (Some ''wamid1''))\<rparr>"

definition chatFailing :: chat where
  "chatFailing = chatUp\<lparr>client_sendMessage := (\<lambda>chatId msg. Inl ''Evaluation failed'')\<rparr>"

definition chatPending :: chat where
  "chatPending = chatUp\<lparr>isReady := False, initializationPromise := Pending\<rparr>"

definition sampleDigest :: "string \<Rightarrow> string \<Rightarrow> string" where
  "sampleDigest k d = take 64 (k @ d @ replicate 64 CHR ''0'')"

definition sampleEnv :: env where
  "sampleEnv =
     \<lparr>RAZORPAY_KEY_SECRET = Some ''secret'', createHmac_sha256_hex = sampleDigest,
      razorpay_orders_create =
        (\<lambda>opts. Inr \<lparr>rz_id = ''order_1'', rz_amount = amount opts, rz_currency = currency opts\<rparr>),
      dbConnected = True, insertOne = (\<lambda>d. Inr 7), now = 1700000000000,
      adminChat = chatUp, customerChat = chatUp, twilioClient = None,
      messages_create = (\<lambda>recipient msg. Inr ''SM1'')\<rparr>"

definition emptyWorld :: world where
  "emptyWorld = \<lparr>orders = [], trace = []\<rparr>"

definition sampleItems :: items_value where
  "sampleItems = ItemsArray [ElemObject \<lparr>name = Str ''Book'', price = NNum 250, quantity = NNum 2\<rparr>]"

definition codBody :: request_body where
  "codBody =
     \<lparr>items = sampleItems, address = sampleAddress, paymentMethod = Str ''cod'',
      total = Num 500, paymentId = Undefined, status = Undefined,
      razorpay_order_id = None, razorpay_payment_id = None,
      razorpay_signature = Undefined\<rparr>"

definition zeroQuantityItems :: items_value where
  "zeroQuantityItems =
     ItemsArray [ElemObject \<lparr>name = Str ''Book'', price = NNum 100, quantity = NNum 0\<rparr>]"

definition mixedQuantityItems :: "item list" where
  "mixedQuantityItems =
     [\<lparr>name = Str ''Atlas'', price = NNum 100, quantity = NNum 0\<rparr>,
      \<lparr>name = Str ''Diary'', price = NNum 50, quantity = NNull\<rparr>,
      \<lparr>name = Str ''Pencil'', price = NNum 25, quantity = NUndefined\<rparr>,
      \<lparr>name = Str ''Novel'', price = NNum 10, quantity = NNum 3\<rparr>]"

definition confirmBody :: request_body where
  "confirmBody =
     codBody\<lparr>paymentMethod := Undefined,
             razorpay_order_id := Some ''order_1'', razorpay_payment_id := Some ''pay_1'',
             razorpay_signature := Str (sampleDigest ''secret'' ''order_1|pay_1'')\<rparr>"

definition legacyBody :: request_body where
  "legacyBody =
     codBody\<lparr>paymentMethod := Str ''prepaid'', total := Num 5, paymentId := Str ''pay_1'',
             status := Str ''pending''\<rparr>"

section \<open>Properties of the numbers\<close>

text \<open>Whole numbers of magnitude up to \<open>2 ^ 53\<close> are doubles: rounding leaves them as they are.\<close>

lemma quot_int: "quotient_of (of_int m) = (m, 1)"
  using Rat.of_int_def quotient_of_int by force

lemma floorLog2_of_int:
  assumes "0 < m"
  shows "floorLog2 (of_int m) = bitlen m - 1"
proof -
  from bitlen_bounds [OF assms] have b: "2 ^ nat (bitlen m - 1) \<le> m" by simp
  from assms have p: "1 \<le> bitlen m"
    using bitlen_eq_zero_iff [of m] bitlen_nonneg [of m] by linarith
  have "bitlen 1 = 1" by code_simp
  moreover have "pow2 (bitlen m - 1) \<le> of_int m"
  proof -
    have "(of_int (2 ^ nat (bitlen m - 1)) :: rat) \<le> of_int m"
      using b by (simp only: of_int_le_iff)
    then show ?thesis using p by (simp add: pow2_def)
  qed
  ultimately show ?thesis
    by (simp add: floorLog2_def quot_int)
qed


lemma roundHalfEven_of_int: "roundHalfEven (of_int k) = k"
  by (simp add: roundHalfEven_def)

lemma round64_exact:
  assumes "0 < m" and "m \<le> 2 ^ 53"
  shows "of_int (roundHalfEven (of_int m / pow2 (bitlen m - 1 - 52))) * pow2 (bitlen m - 1 - 52)
         = (of_int m :: rat)"
proof -
  from bitlen_bounds [OF assms(1)] have b: "2 ^ nat (bitlen m - 1) \<le> m" by simp
  from assms(1) have p: "1 \<le> bitlen m"
    using bitlen_eq_zero_iff [of m] bitlen_nonneg [of m] by linarith
  have le: "bitlen m - 1 \<le> 53"
  proof (rule ccontr)
    assume "\<not> bitlen m - 1 \<le> 53"
    then have "54 \<le> nat (bitlen m - 1)" by simp
    then have "(2::int) ^ 54 \<le> 2 ^ nat (bitlen m - 1)"
      by (intro power_increasing) simp_all
    with b assms(2) show False by simp
  qed
  show ?thesis
  proof (cases "bitlen m - 1 = 53")
    case True
    with b assms(2) have m: "m = 2 ^ 53" by simp
    have "(of_int m :: rat) / pow2 (bitlen m - 1 - 52) = of_int (2 ^ 52)"
      unfolding True by (simp add: pow2_def m)
    then show ?thesis
      unfolding True by (simp only: roundHalfEven_of_int) (simp add: pow2_def m)
  next
    case False
    with le have d: "bitlen m - 1 - 52 \<le> 0" by simp
    define j where "j = nat (52 - (bitlen m - 1))"
    have pw: "pow2 (bitlen m - 1 - 52) = 1 / 2 ^ j"
    proof (cases "bitlen m - 1 - 52 = 0")
      case True
      then show ?thesis by (simp add: pow2_def j_def)
    next
      case False
      with d have "bitlen m - 1 - 52 < 0" by simp
      then show ?thesis by (simp add: pow2_def j_def)
    qed
    have "(of_int m :: rat) / pow2 (bitlen m - 1 - 52) = of_int (m * 2 ^ j)"
      unfolding pw by simp
    then show ?thesis
      unfolding pw by (simp only: roundHalfEven_of_int) simp
  qed
qed

lemma bitlen_small:
  assumes "0 < m" and "m \<le> 2 ^ 53"
  shows "bitlen m - 1 \<le> 53"
proof (rule ccontr)
  from bitlen_bounds [OF assms(1)] have b: "2 ^ nat (bitlen m - 1) \<le> m" by simp
  assume "\<not> bitlen m - 1 \<le> 53"
  then have "54 \<le> nat (bitlen m - 1)" by simp
  then have "(2::int) ^ 54 \<le> 2 ^ nat (bitlen m - 1)"
    by (intro power_increasing) simp_all
  with b assms(2) show False by simp
qed

lemma round64_of_int:
  assumes "\<bar>n\<bar> \<le> 2 ^ 53"
  shows "round64 (of_int n) = Fin (of_int n)"
proof (cases "n = 0")
  case True
  then show ?thesis by (simp add: round64_def)
next
  case False
  define m where "m = \<bar>n\<bar>"
  from False have pos: "0 < m" by (simp add: m_def)
  from assms have le: "m \<le> 2 ^ 53" by (simp add: m_def)
  have abs: "\<bar>of_int n :: rat\<bar> = of_int m" by (simp add: m_def)
  from pos have p: "1 \<le> bitlen m"
    using bitlen_eq_zero_iff [of m] bitlen_nonneg [of m] by linarith
  then have e: "max (bitlen m - 1) (- 1022) = bitlen m - 1" by simp
  have small: "\<not> (1024 \<le> bitlen m - 1
                  \<or> bitlen m - 1 = 1023
                    \<and> roundHalfEven (of_int m / pow2 (bitlen m - 1 - 52)) = 2 ^ 53)"
    using bitlen_small [OF pos le] by simp
  have nz: "(of_int n :: rat) \<noteq> 0" using False by simp
  have "round64 (of_int n) = Fin (if (of_int n :: rat) < 0 then - of_int m else of_int m)"
    unfolding round64_def Let_def abs floorLog2_of_int [OF pos] e round64_exact [OF pos le]
    using nz small by (simp only: if_False)
  also have "(if (of_int n :: rat) < 0 then - of_int m else of_int m) = (of_int n :: rat)"
    by (simp add: m_def)
  finally show ?thesis .
qed

lemma round64_numeral:
  "numeral k \<le> (9007199254740992 :: int) \<Longrightarrow> round64 (numeral k) = Fin (numeral k)"
  using round64_of_int [of "numeral k"] by simp

lemma round64_0: "round64 0 = Fin 0"
  by (simp add: round64_def)

lemma round64_1: "round64 1 = Fin 1"
  using round64_of_int [of 1] by simp

lemma round64_whole:
  assumes "wholeAmount x"
  shows "round64 x = Fin x"
proof -
  define n where "n = \<lfloor>x\<rfloor>"
  from assms [unfolded wholeAmount_def] have f: "of_int \<lfloor>x\<rfloor> = x" and b: "\<bar>x\<bar> \<le> 2 ^ 53"
    by blast+
  from f have x: "x = of_int n"
    unfolding n_def by (rule sym)
  from b have "(of_int \<bar>n\<bar> :: rat) \<le> of_int (2 ^ 53)"
    unfolding x by simp
  then have "\<bar>n\<bar> \<le> 2 ^ 53"
    by (simp only: of_int_le_iff)
  from round64_of_int [OF this] show ?thesis by (simp add: x)
qed

section \<open>Properties of the phone numbers (C7, C8)\<close>

lemma isDigit_simps:
  "isDigit CHR ''0''" "isDigit CHR ''1''" "isDigit CHR ''2''" "isDigit CHR ''3''"
  "isDigit CHR ''4''" "isDigit CHR ''5''" "isDigit CHR ''6''" "isDigit CHR ''7''"
  "isDigit CHR ''8''" "isDigit CHR ''9''" "\<not> isDigit CHR ''+''"
  by (simp_all add: isDigit_def)

lemma cleanNumber_fixed: "list_all isDigit s \<Longrightarrow> cleanNumber s = s"
  by (simp add: cleanNumber_def list_all_iff)

lemma cleanNumber_all: "list_all isDigit (cleanNumber p)"
  by (simp add: cleanNumber_def list_all_iff)

lemma list_all_drop: "list_all P xs \<Longrightarrow> list_all P (drop n xs)"
  by (auto simp: list_all_iff dest: in_set_dropD)

lemma finalNumber_digits: "list_all isDigit (sendMessage_finalNumber p)"
  by (simp add: sendMessage_finalNumber_def Let_def cleanNumber_all list_all_drop isDigit_simps)

lemma finalNumber_prefix: "startsWith (sendMessage_finalNumber p) ''91''"
  by (simp add: sendMessage_finalNumber_def Let_def startsWith_def)

lemma finalNumber_fixed:
  "list_all isDigit r \<Longrightarrow> startsWith r ''91'' \<Longrightarrow> sendMessage_finalNumber r = r"
  by (simp add: sendMessage_finalNumber_def Let_def cleanNumber_fixed)

text \<open>
  C8. The normalization of \<^verbatim>\<open>sendMessage\<close> is idempotent, and \<^verbatim>\<open>09301680755\<close>,
  \<^verbatim>\<open>919301680755\<close> and \<^verbatim>\<open>9301680755\<close> are normalized to one and the same number.
\<close>

theorem sendMessage_finalNumber_idempotent:
  "sendMessage_finalNumber (sendMessage_finalNumber p) = sendMessage_finalNumber p
   \<and> sendMessage_finalNumber ''09301680755'' = ''919301680755''
   \<and> sendMessage_finalNumber ''919301680755'' = ''919301680755''
   \<and> sendMessage_finalNumber ''9301680755'' = ''919301680755''"
proof -
  have idem: "sendMessage_finalNumber (sendMessage_finalNumber p) = sendMessage_finalNumber p"
    using finalNumber_digits finalNumber_prefix by (rule finalNumber_fixed)
  have a: "sendMessage_finalNumber ''09301680755'' = ''919301680755''"
    by (simp add: sendMessage_finalNumber_def cleanNumber_def isDigit_simps startsWith_def)
  have b: "sendMessage_finalNumber ''919301680755'' = ''919301680755''"
    by (simp add: sendMessage_finalNumber_def cleanNumber_def isDigit_simps startsWith_def)
  have c: "sendMessage_finalNumber ''9301680755'' = ''919301680755''"
    by (simp add: sendMessage_finalNumber_def cleanNumber_def isDigit_simps startsWith_def)
  from idem a b c show ?thesis by simp
qed

text \<open>
  C7 fails at \<^verbatim>\<open>09301680755\<close>: the SMS path dials \<^verbatim>\<open>+9109301680755\<close>, the chat path messages
  \<^verbatim>\<open>919301680755\<close>. Only \<^verbatim>\<open>sendMessage\<close> strips the leading 0.
\<close>

theorem sms_number_keeps_leading_zero:
  "sendTextSMS_finalNumber ''09301680755'' = ''9109301680755''
   \<and> recipientNumber ''09301680755'' = ''+9109301680755''
   \<and> sendMessage_finalNumber ''09301680755'' = ''919301680755''
   \<and> sendTextSMS_finalNumber ''09301680755'' \<noteq> sendMessage_finalNumber ''09301680755''"
proof -
  have a: "sendTextSMS_finalNumber ''09301680755'' = ''9109301680755''"
    by (simp add: sendTextSMS_finalNumber_def cleanNumber_def isDigit_simps startsWith_def)
  have b: "sendMessage_finalNumber ''09301680755'' = ''919301680755''"
    by (simp add: sendMessage_finalNumber_def cleanNumber_def isDigit_simps startsWith_def)
  have c: "recipientNumber ''09301680755'' = ''+9109301680755''"
    by (simp add: recipientNumber_def a)
  have d: "sendTextSMS_finalNumber ''09301680755'' \<noteq> sendMessage_finalNumber ''09301680755''"
    by (simp add: a b)
  from a b c d show ?thesis by blast
qed

section \<open>Awaiting and catching\<close>

lemma await_Returns: "await (Returns x, w) rest = rest x w"
  by (simp add: await_def)

lemma await_Throws: "await (Throws err, w) rest = (Throws err, w)"
  by (simp add: await_def)

lemma await_Hangs: "await (Hangs, w) rest = (Hangs, w)"
  by (simp add: await_def)

lemma tryCatch_Returns: "tryCatch (Returns x, w) handler = (Returns x, w)"
  by (simp add: tryCatch_def)



lemma tryCatch_respond:
  "m = (r, w') \<Longrightarrow>
   tryCatch m (\<lambda>err w''. respond code (f err) w'')
   = ((case r of Throws err \<Rightarrow> Returns \<lparr>statusCode = code, json = f err\<rparr> | other \<Rightarrow> other), w')"
  by (cases r) (simp_all add: tryCatch_def respond_def)

lemma respond_400:
  "respond 400 (ErrorReply msg) w = (Returns \<lparr>statusCode = 400, json = ErrorReply msg\<rparr>, w)"
  by (simp add: respond_def)

section \<open>The notification service\<close>

lemma pollReady_result:
  "pollReady ready i n = Returns True \<or> (\<exists>err. pollReady ready i n = Throws err)"
  by (induction n arbitrary: i) auto

lemma waitForReady_result:
  "waitForReady c = Returns True \<or> (\<exists>err. waitForReady c = Throws err) \<or> waitForReady c = Hangs"
  using pollReady_result [of "isReadyAtPoll c" 0 30]
  by (auto simp: waitForReady_def split: promise.splits)

lemma sendMessage_hangs:
  "waitForReady c = Hangs \<Longrightarrow>
   sendMessage e c phone msg w = (Hangs, w\<lparr>trace := trace w @ chatEvents c phone msg\<rparr>)"
  by (simp add: sendMessage_def sendMessage_try_def tryCatch_def chatEvents_def chatReached_def logged_def
           split: jsval.splits)

lemma sendMessage_settles:
  assumes "waitForReady c \<noteq> Hangs"
  shows "\<exists>r. sendMessage e c phone msg w
                   = (Returns r, w\<lparr>trace := trace w @ chatEvents c phone msg\<rparr>)
           \<and> success r = chatDelivers c phone msg"
proof -
  from assms waitForReady_result [of c]
  consider (ready) "waitForReady c = Returns True" | (throws) err where "waitForReady c = Throws err"
    by auto
  then show ?thesis
  proof cases
    case ready
    show ?thesis
    proof (cases phone)
      case (Str p)
      show ?thesis
      proof (cases "isRegisteredUser c (sendMessage_finalNumber p @ ''@c.us'')")
        case (Inl err)
        with ready Str show ?thesis
          by (simp add: sendMessage_def sendMessage_try_def tryCatch_def chatDelivers_def
                chatEvents_def chatReached_def logged_def)
      next
        case (Inr registered)
        show ?thesis
        proof (cases "client_sendMessage c (sendMessage_finalNumber p @ ''@c.us'') msg")
          case (Inl sendError)
          with ready Str Inr show ?thesis
            by (cases registered)
               (simp_all add: sendMessage_def sendMessage_try_def tryCatch_def chatDelivers_def
                  chatEvents_def chatReached_def logged_def Let_def)
        next
          case (Inr result)
          with ready Str \<open>isRegisteredUser c (sendMessage_finalNumber p @ ''@c.us'') = Inr registered\<close>
          show ?thesis
            by (cases registered)
               (simp_all add: sendMessage_def sendMessage_try_def tryCatch_def chatDelivers_def
                  chatEvents_def chatReached_def logged_def Let_def)
        qed
      qed
    qed (use ready in \<open>simp_all add: sendMessage_def sendMessage_try_def tryCatch_def
           chatDelivers_def chatEvents_def chatReached_def logged_def\<close>)
  next
    case throws
    then show ?thesis
      by (simp add: sendMessage_def sendMessage_try_def tryCatch_def chatDelivers_def
            chatEvents_def chatReached_def logged_def split: jsval.splits)
  qed
qed

lemma sendMessage_world:
  "\<exists>r. sendMessage e c phone msg w = (r, w\<lparr>trace := trace w @ chatEvents c phone msg\<rparr>)"
proof (cases "waitForReady c = Hangs")
  case True
  then show ?thesis
    using sendMessage_hangs [OF True, of e phone msg w] by simp
next
  case False
  from sendMessage_settles [OF False, of e phone msg w] show ?thesis by blast
qed

lemma sendTextSMS_throws:
  "twilioClient e = Some err \<Longrightarrow>
   sendTextSMS e phone msg w = (Throws err, w\<lparr>trace := trace w @ smsEvents e phone msg\<rparr>)"
  by (simp add: sendTextSMS_def smsEvents_def logged_def split: jsval.splits)

lemma sendTextSMS_settles:
  assumes "twilioClient e = None"
  shows "\<exists>r. sendTextSMS e phone msg w
                   = (Returns r, w\<lparr>trace := trace w @ smsEvents e phone msg\<rparr>)
           \<and> success r = smsDelivers e phone msg"
proof (cases phone)
  case (Str p)
  then show ?thesis using assms
    by (cases "messages_create e (recipientNumber p) msg")
       (simp_all add: sendTextSMS_def tryCatch_def smsDelivers_def smsEvents_def logged_def)
qed (use assms in \<open>simp_all add: sendTextSMS_def tryCatch_def smsDelivers_def smsEvents_def logged_def\<close>)

lemma sendTextSMS_world:
  "\<exists>r. sendTextSMS e phone msg w = (r, w\<lparr>trace := trace w @ smsEvents e phone msg\<rparr>)"
proof (cases "twilioClient e")
  case None
  from sendTextSMS_settles [OF None, of phone msg w] show ?thesis by blast
next
  case (Some err)
  then show ?thesis
    using sendTextSMS_throws [OF Some, of phone msg w] by simp
qed

section \<open>Making the texts\<close>


lemma mapLines_throws: "ElemNull \<in> set es \<Longrightarrow> \<exists>err. mapLines es = Inl err"
proof (induction es)
  case Nil
  then show ?case by simp
next
  case (Cons x es)
  show ?case
  proof (cases x)
    case ElemNull
    then show ?thesis by simp
  next
    case ElemOther
    with Cons show ?thesis by auto
  next
    case (ElemObject it)
    with Cons show ?thesis by auto
  qed
qed


lemma reduceTotal_total: "ElemNull \<notin> set es \<Longrightarrow> \<exists>s. reduceTotal acc es = Inr s"
proof (induction es arbitrary: acc)
  case Nil
  show ?case by simp
next
  case (Cons x es)
  then show ?case by (cases x) auto
qed



section \<open>Sending the three notifications\<close>

lemma sendNotifications_throws_early:
  assumes "generateAdminMessage addr its tot method pid = Inl err"
  shows "sendNotifications e addr its tot method pid w = (Throws err, w)"
  using assms by (simp add: sendNotifications_def)

lemma sendNotifications_settles:
  assumes "generateAdminMessage addr its tot method pid = Inr am"
    and "waitForReady (adminChat e) \<noteq> Hangs" "waitForReady (customerChat e) \<noteq> Hangs"
    and "twilioClient e = None"
  shows "sendNotifications e addr its tot method pid w =
     (Returns (deliveryReport e addr am (generateCustomerMessage addr tot method)),
      w\<lparr>trace := trace w @ notificationEvents e addr am (generateCustomerMessage addr tot method)\<rparr>)"
proof -
  let ?cm = "generateCustomerMessage addr tot method"
  let ?ph = "getField addr ''phone''"
  let ?w1 = "w\<lparr>trace := trace w @ chatEvents (adminChat e) (Str ''919301680755'') am\<rparr>"
  let ?w2 = "?w1\<lparr>trace := trace ?w1 @ chatEvents (customerChat e) ?ph ?cm\<rparr>"
  from sendMessage_settles [OF assms(2), of e "Str ''919301680755''" am w]
  obtain ra where ra: "sendMessage e (adminChat e) (Str ''919301680755'') am w = (Returns ra, ?w1)"
    and sa: "success ra = chatDelivers (adminChat e) (Str ''919301680755'') am"
    by blast
  from sendMessage_settles [OF assms(3), of e ?ph ?cm ?w1]
  obtain rc where rc: "sendMessage e (customerChat e) ?ph ?cm ?w1 = (Returns rc, ?w2)"
    and sc: "success rc = chatDelivers (customerChat e) ?ph ?cm"
    by blast
  from sendTextSMS_settles [OF assms(4), of ?ph ?cm ?w2]
  obtain rs where rs: "sendTextSMS e ?ph ?cm ?w2
        = (Returns rs, ?w2\<lparr>trace := trace ?w2 @ smsEvents e ?ph ?cm\<rparr>)"
    and ss: "success rs = smsDelivers e ?ph ?cm"
    by blast
  show ?thesis
    unfolding sendNotifications_def Let_def assms(1) sum.case
    by (simp only: ra await_Returns rc rs)
       (simp add: sentOrFailed_def sentIf_def deliveryReport_def sa sc ss notificationEvents_def)
qed

lemma sendNotifications_sms_client_throws:
  assumes "generateAdminMessage addr its tot method pid = Inr am"
    and "waitForReady (adminChat e) \<noteq> Hangs" "waitForReady (customerChat e) \<noteq> Hangs"
    and "twilioClient e = Some err"
  shows "sendNotifications e addr its tot method pid w =
     (Throws err,
      w\<lparr>trace := trace w @ chatEvents (adminChat e) (Str ''919301680755'') am
                 @ chatEvents (customerChat e) (getField addr ''phone'')
                     (generateCustomerMessage addr tot method)
                 @ [SmsAttempt (getField addr ''phone'') (generateCustomerMessage addr tot method)]\<rparr>)"
proof -
  let ?cm = "generateCustomerMessage addr tot method"
  let ?ph = "getField addr ''phone''"
  let ?w1 = "w\<lparr>trace := trace w @ chatEvents (adminChat e) (Str ''919301680755'') am\<rparr>"
  let ?w2 = "?w1\<lparr>trace := trace ?w1 @ chatEvents (customerChat e) ?ph ?cm\<rparr>"
  from sendMessage_settles [OF assms(2), of e "Str ''919301680755''" am w]
  obtain ra where ra: "sendMessage e (adminChat e) (Str ''919301680755'') am w = (Returns ra, ?w1)"
    by blast
  from sendMessage_settles [OF assms(3), of e ?ph ?cm ?w1]
  obtain rc where rc: "sendMessage e (customerChat e) ?ph ?cm ?w1 = (Returns rc, ?w2)"
    by blast
  have rs: "sendTextSMS e ?ph ?cm ?w2 = (Throws err, logged (SmsAttempt ?ph ?cm) ?w2)"
    using assms(4) by (simp add: sendTextSMS_def Let_def)
  show ?thesis
    unfolding sendNotifications_def Let_def assms(1) sum.case
    by (simp only: ra await_Returns rc rs await_Throws) (simp add: logged_def)
qed

lemma chatEvents_hangs:
  "waitForReady c = Hangs \<Longrightarrow> chatEvents c phone msg = [ChatAttempt phone msg]"
  by (simp add: chatEvents_def chatReached_def split: jsval.splits)

lemma sendNotifications_admin_hangs:
  assumes "generateAdminMessage addr its tot method pid = Inr am"
    and "waitForReady (adminChat e) = Hangs"
  shows "sendNotifications e addr its tot method pid w =
     (Hangs, w\<lparr>trace := trace w @ [ChatAttempt (Str ''919301680755'') am]\<rparr>)"
  unfolding sendNotifications_def Let_def assms(1) sum.case
  by (simp add: sendMessage_hangs [OF assms(2)] await_Hangs chatEvents_hangs [OF assms(2)])

lemma sendNotifications_customer_hangs:
  assumes "generateAdminMessage addr its tot method pid = Inr am"
    and "waitForReady (adminChat e) \<noteq> Hangs" "waitForReady (customerChat e) = Hangs"
  shows "sendNotifications e addr its tot method pid w =
     (Hangs,
      w\<lparr>trace := trace w @ chatEvents (adminChat e) (Str ''919301680755'') am
                 @ [ChatAttempt (getField addr ''phone'') (generateCustomerMessage addr tot method)]\<rparr>)"
proof -
  let ?cm = "generateCustomerMessage addr tot method"
  let ?ph = "getField addr ''phone''"
  let ?w1 = "w\<lparr>trace := trace w @ chatEvents (adminChat e) (Str ''919301680755'') am\<rparr>"
  from sendMessage_settles [OF assms(2), of e "Str ''919301680755''" am w]
  obtain ra where ra: "sendMessage e (adminChat e) (Str ''919301680755'') am w = (Returns ra, ?w1)"
    by blast
  show ?thesis
    unfolding sendNotifications_def Let_def assms(1) sum.case
    by (simp only: ra await_Returns sendMessage_hangs [OF assms(3)] await_Hangs)
       (simp add: chatEvents_hangs [OF assms(3)])
qed

lemma sendNotifications_world:
  "\<exists>r evs. sendNotifications e addr its tot method pid w = (r, w\<lparr>trace := trace w @ evs\<rparr>)"
proof (cases "generateAdminMessage addr its tot method pid")
  case (Inl err)
  from sendNotifications_throws_early [OF Inl, of e w]
  have "sendNotifications e addr its tot method pid w = (Throws err, w\<lparr>trace := trace w @ []\<rparr>)"
    by simp
  then show ?thesis by blast
next
  case (Inr am)
  show ?thesis
  proof (cases "waitForReady (adminChat e) = Hangs")
    case True
    from sendNotifications_admin_hangs [OF Inr True] show ?thesis by blast
  next
    case a: False
    show ?thesis
    proof (cases "waitForReady (customerChat e) = Hangs")
      case True
      from sendNotifications_customer_hangs [OF Inr a True] show ?thesis by blast
    next
      case c: False
      show ?thesis
      proof (cases "twilioClient e")
        case None
        from sendNotifications_settles [OF Inr a c None] show ?thesis by blast
      next
        case (Some err)
        from sendNotifications_sms_client_throws [OF Inr a c Some] show ?thesis by blast
      qed
    qed
  qed
qed


section \<open>Saving, then notifying\<close>

lemma saveOrderToDatabase_ok:
  assumes "dbConnected e" "insertOne e (d\<lparr>order_createdAt := Some (now e)\<rparr>) = Inr i"
  shows "saveOrderToDatabase e d w =
     (Returns i, w\<lparr>orders := orders w @ [d\<lparr>order_createdAt := Some (now e)\<rparr>],
                   trace := trace w @ [DbInsert (d\<lparr>order_createdAt := Some (now e)\<rparr>)]\<rparr>)"
  using assms by (simp add: saveOrderToDatabase_def logged_def Let_def)

lemma saveOrderToDatabase_cases:
  "(\<exists>i evs. saveOrderToDatabase e d w =
       (Returns i, w\<lparr>orders := orders w @ [d\<lparr>order_createdAt := Some (now e)\<rparr>],
                      trace := trace w @ evs\<rparr>))
   \<or> (\<exists>err evs. saveOrderToDatabase e d w = (Throws err, w\<lparr>trace := trace w @ evs\<rparr>))"
proof (cases "dbConnected e")
  case False
  then have "saveOrderToDatabase e d w = (Throws ''Database not connected'', w\<lparr>trace := trace w @ []\<rparr>)"
    by (simp add: saveOrderToDatabase_def)
  then show ?thesis by blast
next
  case True
  show ?thesis
  proof (cases "insertOne e (d\<lparr>order_createdAt := Some (now e)\<rparr>)")
    case (Inl err)
    with True have "saveOrderToDatabase e d w
       = (Throws err, w\<lparr>trace := trace w @ [DbInsert (d\<lparr>order_createdAt := Some (now e)\<rparr>)]\<rparr>)"
      by (simp add: saveOrderToDatabase_def logged_def Let_def)
    then show ?thesis by blast
  next
    case (Inr i)
    from saveOrderToDatabase_ok [OF True Inr] show ?thesis by blast
  qed
qed







lemma persist_notify_saved:
  assumes "dbConnected e" "insertOne e (d\<lparr>order_createdAt := Some (now e)\<rparr>) = Inr i"
  shows "\<exists>r evs. await (saveOrderToDatabase e d w) (\<lambda>insertedId w1.
             await (sendNotifications e addr its tot method pid w1) (\<lambda>notifications w2.
               respond 200 (OrderReply txt insertedId notifications) w2))
       = (r, w\<lparr>orders := orders w @ [d\<lparr>order_createdAt := Some (now e)\<rparr>],
                trace := trace w @ evs\<rparr>)"
proof -
  let ?d = "d\<lparr>order_createdAt := Some (now e)\<rparr>"
  let ?w1 = "w\<lparr>orders := orders w @ [?d], trace := trace w @ [DbInsert ?d]\<rparr>"
  from sendNotifications_world [of e addr its tot "method" pid ?w1]
  obtain rn evs where n: "sendNotifications e addr its tot method pid ?w1
      = (rn, ?w1\<lparr>trace := trace ?w1 @ evs\<rparr>)"
    by blast
  have "\<exists>r. await (saveOrderToDatabase e d w) (\<lambda>insertedId w1.
             await (sendNotifications e addr its tot method pid w1) (\<lambda>notifications w2.
               respond 200 (OrderReply txt insertedId notifications) w2))
       = (r, w\<lparr>orders := orders w @ [?d], trace := trace w @ (DbInsert ?d # evs)\<rparr>)"
    by (cases rn) (simp_all add: saveOrderToDatabase_ok [OF assms] n await_def respond_def)
  then show ?thesis by blast
qed

lemma persist_notify_shape:
  "\<exists>r w'. await (saveOrderToDatabase e d w) (\<lambda>insertedId w1.
             await (sendNotifications e addr its tot method pid w1) (\<lambda>notifications w2.
               respond 200 (OrderReply txt insertedId notifications) w2)) = (r, w')
     \<and> (\<forall>resp. r = Returns resp \<longrightarrow> statusCode resp = 200)
     \<and> (orders w' = orders w \<and> (\<exists>err. r = Throws err)
         \<or> orders w' = orders w @ [d\<lparr>order_createdAt := Some (now e)\<rparr>] \<and> dbConnected e
            \<and> \<not> isl (insertOne e (d\<lparr>order_createdAt := Some (now e)\<rparr>)))"
proof -
  let ?d = "d\<lparr>order_createdAt := Some (now e)\<rparr>"
  from saveOrderToDatabase_cases [of e d w]
  consider (saved) i evs where "saveOrderToDatabase e d w =
       (Returns i, w\<lparr>orders := orders w @ [?d], trace := trace w @ evs\<rparr>)"
    | (failed) err evs where "saveOrderToDatabase e d w = (Throws err, w\<lparr>trace := trace w @ evs\<rparr>)"
    by blast
  then show ?thesis
  proof cases
    case saved
    let ?w1 = "w\<lparr>orders := orders w @ [?d], trace := trace w @ evs\<rparr>"
    have up: "dbConnected e \<and> \<not> isl (insertOne e ?d)"
      using saved by (auto simp: saveOrderToDatabase_def Let_def split: if_splits sum.splits)
    from sendNotifications_world [of e addr its tot "method" pid ?w1]
    obtain rn evs' where n: "sendNotifications e addr its tot method pid ?w1
        = (rn, ?w1\<lparr>trace := trace ?w1 @ evs'\<rparr>)"
      by blast
    show ?thesis
      using up by (cases rn) (simp_all add: saved n await_def respond_def)
  next
    case failed
    then show ?thesis by (simp add: await_def)
  qed
qed

section \<open>Evaluating the sample requests\<close>

lemmas sample_defs =
  sampleEnv_def sampleAddress_def chatUp_def chatFailing_def chatPending_def sampleDigest_def
  emptyWorld_def sampleItems_def codBody_def zeroQuantityItems_def mixedQuantityItems_def
  confirmBody_def legacyBody_def

lemmas controller_defs =
  createOrder_def createOrder_try_def verifyPayment_def verifyPayment_try_def saveOrder_def
  generatedSignature_def saveOrderToDatabase_def sendNotifications_def sendMessage_def
  sendMessage_try_def sendTextSMS_def waitForReady_def requiredAddressFields_def
  tryCatch_def await_def logged_def respond_def sentOrFailed_def
  generateAdminMessage_def generateCustomerMessage_def sendMessage_finalNumber_def
  sendTextSMS_finalNumber_def recipientNumber_def cleanNumber_def startsWith_def
  isDigit_def numEquals_def round64_numeral round64_0 round64_1 Let_def

text \<open>
  Scenario A end to end: the customer gave \<^verbatim>\<open>09301680755\<close>; the chat message goes to
  \<^verbatim>\<open>919301680755@c.us\<close> and the SMS to \<^verbatim>\<open>+9109301680755\<close>.
\<close>

lemma scenario_A_recipients:
  "ChatSend ''919301680755@c.us'' (generateCustomerMessage sampleAddress (Num 500) (Str ''cod''))
     \<in> set (trace (snd (createOrder sampleEnv codBody emptyWorld)))
   \<and> SmsCreate ''+9109301680755'' (generateCustomerMessage sampleAddress (Num 500) (Str ''cod''))
       \<in> set (trace (snd (createOrder sampleEnv codBody emptyWorld)))"
  by (simp add: sample_defs controller_defs)

text \<open>
  The sum is one of doubles: three items of price 0.1 against a total of 0.3 are
  rejected, since \<^verbatim>\<open>0.1 + 0.1 + 0.1\<close> is \<^verbatim>\<open>0.30000000000000004\<close>; and a total of \<open>2 ^ 53\<close> is
  accepted for items worth \<open>2 ^ 53 + 1\<close>, since \<open>2 ^ 53 + 1\<close> is no double.
\<close>

lemma calculatedTotal_is_of_doubles:
  "calculatedTotal
     (ItemsArray [ElemObject \<lparr>name = Str ''Pen'', price = NNum (1 / 10), quantity = NNum 1\<rparr>,
                  ElemObject \<lparr>name = Str ''Ink'', price = NNum (1 / 10), quantity = NNum 1\<rparr>,
                  ElemObject \<lparr>name = Str ''Nib'', price = NNum (1 / 10), quantity = NNum 1\<rparr>])
     = Inr (Fin (5404319552844596 / 18014398509481984))
   \<and> \<not> strictlyEquals (Fin (5404319552844596 / 18014398509481984)) (Num (3 / 10))
   \<and> calculatedTotal
       (ItemsArray [ElemObject \<lparr>name = Str ''Press'', price = NNum (2 ^ 53), quantity = NNum 1\<rparr>,
                    ElemObject \<lparr>name = Str ''Pen'', price = NNum 1, quantity = NNum 1\<rparr>])
     = Inr (Fin (2 ^ 53))
   \<and> strictlyEquals (Fin (2 ^ 53)) (Num (2 ^ 53))"
  by code_simp

section \<open>Validation of an order (C1, C10)\<close>





lemma toNumber_quantityOr1: "toNumber (quantityOr1 q) = countedQuantity q"
  by (cases q) (simp_all add: round64_1)

lemma reduceTotal_objects:
  "reduceTotal acc (map ElemObject its)
   = Inr (foldl (\<lambda>sum it. js_plus sum (js_times (toNumber (price it)) (countedQuantity (quantity it))))
            acc its)"
  by (induction its arbitrary: acc) (simp_all add: toNumber_quantityOr1)

lemma calculatedTotal_counted:
  "calculatedTotal (ItemsArray (map ElemObject its)) = Inr (sumWithCountedQuantities its)"
  by (simp add: reduceTotal_objects sumWithCountedQuantities_def)

lemma toNumber_exact:
  assumes "numberOrNull p" "wholeAmount (amountOf p)"
  shows "toNumber p = Fin (amountOf p)"
  using assms by (cases p) (simp_all add: round64_whole)

lemma countedQuantity_exact:
  assumes "numberOrMissing q" "wholeAmount (countOf q)"
  shows "countedQuantity q = Fin (countOf q)"
proof (cases q)
  case (NNum x)
  show ?thesis
  proof (cases "x = 0")
    case True
    with NNum show ?thesis by (simp add: round64_0)
  next
    case False
    with NNum assms(2) have "round64 x = Fin x" by (simp add: round64_whole)
    with NNum False show ?thesis by simp
  qed
qed (use assms in simp_all)

lemma foldl_exact:
  "withinExactRange acc its \<Longrightarrow>
   foldl (\<lambda>sum it. js_plus sum (js_times (toNumber (price it)) (countedQuantity (quantity it))))
     (Fin acc) its
   = Fin (acc + exactCountedSum its)"
proof (induction its arbitrary: acc)
  case Nil
  show ?case by (simp add: exactCountedSum_def)
next
  case (Cons it its)
  let ?p = "amountOf (price it)"
  let ?q = "countOf (quantity it)"
  from Cons.prems have p: "toNumber (price it) = Fin ?p"
    by (simp add: toNumber_exact)
  from Cons.prems have q: "countedQuantity (quantity it) = Fin ?q"
    by (simp add: countedQuantity_exact)
  from Cons.prems have pq: "round64 (?p * ?q) = Fin (?p * ?q)"
    by (simp add: round64_whole)
  from Cons.prems have s: "round64 (acc + ?p * ?q) = Fin (acc + ?p * ?q)"
    by (simp add: round64_whole)
  from Cons.prems have rest: "withinExactRange (acc + ?p * ?q) its"
    by simp
  have e: "exactCountedSum (it # its) = ?p * ?q + exactCountedSum its"
    by (simp add: exactCountedSum_def)
  show ?case
    by (simp add: p q pq s Cons.IH [OF rest] e add.assoc)
qed

lemma sumWithCountedQuantities_exact:
  "withinExactRange 0 its \<Longrightarrow> sumWithCountedQuantities its = Fin (exactCountedSum its)"
  using foldl_exact [of 0 its] by (simp add: sumWithCountedQuantities_def)


lemma createOrder_cases:
  "(\<exists>msg. createOrder e b w = (Returns \<lparr>statusCode = 400, json = ErrorReply msg\<rparr>, w))
   \<or> (\<exists>err. calculatedTotal (items b) = Inl err \<and> createOrder e b w = (Throws err, w))
   \<or> (\<exists>c. calculatedTotal (items b) = Inr c \<and> strictlyEquals c (total b)
         \<and> createOrder e b w =
             tryCatch (createOrder_try e (items b) (address b) (paymentMethod b) (total b) c w)
               (\<lambda>err w'. respond 500 (ErrorReply (''Error creating order: '' @ err)) w'))"
  by (auto simp: createOrder_def respond_400 split: option.splits sum.splits)






section \<open>Notification dispatch (C9)\<close>

text \<open>
  C9 fails on the code. \<^verbatim>\<open>sendMessage\<close> catches whatever its body throws, and so does the
  \<^verbatim>\<open>try\<close> block of \<^verbatim>\<open>sendTextSMS\<close>; but \<^verbatim>\<open>sendTextSMS\<close> makes its client before that block
  (line 175), \<^verbatim>\<open>sendNotifications\<close> has no handler of its own, and \<^verbatim>\<open>waitForReady\<close> awaits a
  promise that may stay pending.

  With an SMS client that cannot be made (no account id configured) and both chat sends
  going through, the three sends are attempted and \<^verbatim>\<open>sendNotifications\<close> raises: no outcome
  is returned for any channel. With the administrator's chat session still waiting for its
  initialisation, \<^verbatim>\<open>sendNotifications\<close> neither returns nor raises, and the customer's chat
  message and the SMS are never attempted: one attempt, not three. With \<^verbatim>\<open>items\<close> that is no
  array, as \<^verbatim>\<open>verifyPayment\<close> and \<^verbatim>\<open>saveOrder\<close> let through, it raises before any send is
  attempted.
\<close>

theorem sendNotifications_raises_or_stalls:
  "fst (sendNotifications (sampleEnv\<lparr>twilioClient := Some ''username is required''\<rparr>)
          sampleAddress sampleItems (Num 500) (Str ''cod'') Null emptyWorld)
     = Throws ''username is required''
   \<and> length (filter isAttempt
        (trace (snd (sendNotifications (sampleEnv\<lparr>twilioClient := Some ''username is required''\<rparr>)
                       sampleAddress sampleItems (Num 500) (Str ''cod'') Null emptyWorld))))
     = 3
   \<and> fst (sendNotifications (sampleEnv\<lparr>adminChat := chatPending\<rparr>)
            sampleAddress sampleItems (Num 500) (Str ''cod'') Null emptyWorld)
     = Hangs
   \<and> length (filter isAttempt
        (trace (snd (sendNotifications (sampleEnv\<lparr>adminChat := chatPending\<rparr>)
                       sampleAddress sampleItems (Num 500) (Str ''cod'') Null emptyWorld))))
     = 1
   \<and> sendNotifications sampleEnv sampleAddress NotAnArray (Num 500) (Str ''prepaid'')
       (Str ''pay_1'') emptyWorld
     = (Throws ''items.map is not a function'', emptyWorld)"
proof -
  have a: "fst (sendNotifications (sampleEnv\<lparr>twilioClient := Some ''username is required''\<rparr>)
          sampleAddress sampleItems (Num 500) (Str ''cod'') Null emptyWorld)
     = Throws ''username is required''"
    by (simp add: sample_defs controller_defs)
  have b: "length (filter isAttempt
        (trace (snd (sendNotifications (sampleEnv\<lparr>twilioClient := Some ''username is required''\<rparr>)
                       sampleAddress sampleItems (Num 500) (Str ''cod'') Null emptyWorld))))
     = 3"
    by (simp add: sample_defs controller_defs)
  have c: "fst (sendNotifications (sampleEnv\<lparr>adminChat := chatPending\<rparr>)
            sampleAddress sampleItems (Num 500) (Str ''cod'') Null emptyWorld)
     = Hangs"
    by (simp add: sample_defs controller_defs)
  have d: "length (filter isAttempt
        (trace (snd (sendNotifications (sampleEnv\<lparr>adminChat := chatPending\<rparr>)
                       sampleAddress sampleItems (Num 500) (Str ''cod'') Null emptyWorld))))
     = 1"
    by (simp add: sample_defs controller_defs)
  have e: "sendNotifications sampleEnv sampleAddress NotAnArray (Num 500) (Str ''prepaid'')
       (Str ''pay_1'') emptyWorld
     = (Throws ''items.map is not a function'', emptyWorld)"
    by (simp add: sample_defs controller_defs)
  from a b c d e show ?thesis by blast
qed

text \<open>
  What does hold: when the texts can be made, the waiting of both chat sends ends and the
  SMS client can be made, every failure of a send is caught, all three sends are attempted
  in order and one outcome per send is returned, \<^verbatim>\<open>Sent\<close> exactly for the sends that went
  through. Here the administrator's chat message fails in the transport and the two
  messages to the customer go through.
\<close>

lemma sendNotifications_partial_failure:
  "sendNotifications (sampleEnv\<lparr>adminChat := chatFailing\<rparr>) sampleAddress sampleItems (Num 500)
     (Str ''cod'') Null emptyWorld
   = (Returns [(''admin'', ''Failed''), (''customer'', ''Sent''), (''sms'', ''Sent'')],
      emptyWorld\<lparr>trace :=
        notificationEvents (sampleEnv\<lparr>adminChat := chatFailing\<rparr>) sampleAddress
          (AdminMessage (Str ''Asha'') (Str ''09301680755'') (Str ''1 MG Road'') (Str ''Indore'')
             (Str ''MP'') (Str ''452001'') [(Str ''Book'', NNum 2)] (Num 500) ''COD'' (Str ''N/A''))
          (generateCustomerMessage sampleAddress (Num 500) (Str ''cod''))\<rparr>)"
proof -
  let ?e = "sampleEnv\<lparr>adminChat := chatFailing\<rparr>"
  let ?am = "AdminMessage (Str ''Asha'') (Str ''09301680755'') (Str ''1 MG Road'') (Str ''Indore'')
             (Str ''MP'') (Str ''452001'') [(Str ''Book'', NNum 2)] (Num 500) ''COD'' (Str ''N/A'')"
  let ?cm = "generateCustomerMessage sampleAddress (Num 500) (Str ''cod'')"
  have g: "generateAdminMessage sampleAddress sampleItems (Num 500) (Str ''cod'') Null = Inr ?am"
    by (simp add: generateAdminMessage_def sampleItems_def sampleAddress_def)
  have h1: "waitForReady (adminChat ?e) \<noteq> Hangs"
    by (simp add: sampleEnv_def chatFailing_def chatUp_def waitForReady_def)
  have h2: "waitForReady (customerChat ?e) \<noteq> Hangs"
    by (simp add: sampleEnv_def chatUp_def waitForReady_def)
  have h3: "twilioClient ?e = None" by (simp add: sampleEnv_def)
  have r: "deliveryReport ?e sampleAddress ?am ?cm
      = [(''admin'', ''Failed''), (''customer'', ''Sent''), (''sms'', ''Sent'')]"
    by (simp add: deliveryReport_def sentIf_def chatDelivers_def chatReached_def smsDelivers_def
          sample_defs waitForReady_def)
  from sendNotifications_settles [OF g h1 h2 h3, of emptyWorld] r show ?thesis
    by (simp add: emptyWorld_def)
qed

section \<open>Cash on delivery (C5)\<close>




section \<open>What the handlers persist (C6)\<close>

lemma createOrder_try_orders:
  "\<exists>r w'. createOrder_try e its addr method tot c w = (r, w')
     \<and> (orders w' = orders w
         \<or> method = Str ''cod''
           \<and> orders w' = orders w @
                [\<lparr>order_items = its, order_address = addr, order_paymentMethod = Str ''cod'',
                  order_total = tot, order_paymentId = Null, order_razorpayOrderId = Undefined,
                  order_status = Str ''confirmed'', order_createdAt = Some (now e)\<rparr>])"
proof (cases "method = Str ''prepaid''")
  case True
  then show ?thesis
    by (cases "razorpay_orders_create e \<lparr>amount = js_times c (Fin 100), currency = ''INR'', receipt = now e\<rparr>")
       (simp_all add: createOrder_try_def respond_def logged_def)
next
  case notPrepaid: False
  show ?thesis
  proof (cases "method = Str ''cod''")
    case True
    let ?draft = "\<lparr>order_items = its, order_address = addr, order_paymentMethod = Str ''cod'',
                  order_total = tot, order_paymentId = Null, order_razorpayOrderId = Undefined,
                  order_status = Str ''confirmed'', order_createdAt = None\<rparr>"
    from persist_notify_shape [of e ?draft w addr its tot "Str ''cod''" Null
           "''COD Order placed successfully''"]
    show ?thesis
      using True by (auto simp: createOrder_try_def)
  next
    case False
    with notPrepaid show ?thesis
      by (simp add: createOrder_try_def respond_def)
  qed
qed

lemma createOrder_orders:
  "orders (snd (createOrder e b w)) = orders w
   \<or> (\<exists>d. orders (snd (createOrder e b w)) = orders w @ [d]
         \<and> order_paymentMethod d = Str ''cod'' \<and> order_paymentId d = Null
         \<and> order_status d = Str ''confirmed''
         \<and> (\<exists>c. calculatedTotal (order_items d) = Inr c \<and> strictlyEquals c (order_total d)))"
proof -
  from createOrder_cases [of e b w]
  consider (rejected) msg where
      "createOrder e b w = (Returns \<lparr>statusCode = 400, json = ErrorReply msg\<rparr>, w)"
    | (thrown) err where "createOrder e b w = (Throws err, w)"
    | (valid) c where "calculatedTotal (items b) = Inr c" "strictlyEquals c (total b)"
        "createOrder e b w =
             tryCatch (createOrder_try e (items b) (address b) (paymentMethod b) (total b) c w)
               (\<lambda>err w'. respond 500 (ErrorReply (''Error creating order: '' @ err)) w')"
    by blast
  then show ?thesis
  proof cases
    case rejected
    then show ?thesis by simp
  next
    case thrown
    then show ?thesis by simp
  next
    case valid
    from createOrder_try_orders [of e "items b" "address b" "paymentMethod b" "total b" c w]
    obtain r w' where t: "createOrder_try e (items b) (address b) (paymentMethod b) (total b) c w = (r, w')"
      and o: "orders w' = orders w
         \<or> paymentMethod b = Str ''cod''
           \<and> orders w' = orders w @
                [\<lparr>order_items = items b, order_address = address b,
                  order_paymentMethod = Str ''cod'', order_total = total b,
                  order_paymentId = Null, order_razorpayOrderId = Undefined,
                  order_status = Str ''confirmed'', order_createdAt = Some (now e)\<rparr>]"
      by blast
    have "snd (createOrder e b w) = w'"
      by (simp add: valid(3) tryCatch_respond [OF t])
    with o valid(1,2) show ?thesis by auto
  qed
qed

lemma verifyPayment_cases:
  "(\<exists>msg. verifyPayment e b w = (Returns \<lparr>statusCode = 400, json = ErrorReply msg\<rparr>, w))
   \<or> (\<exists>oid pid. razorpay_order_id b = Some oid \<and> oid \<noteq> [] \<and> razorpay_payment_id b = Some pid
         \<and> pid \<noteq> [] \<and> truthy (razorpay_signature b) \<and> items b \<noteq> NoItems
         \<and> truthy (address b) \<and> truthy (total b)
         \<and> verifyPayment e b w =
             tryCatch (verifyPayment_try e oid pid (razorpay_signature b) (items b) (address b) (total b) w)
               (\<lambda>err w'. respond 500 (ErrorReply (''Error verifying payment: '' @ err)) w'))"
  by (auto simp: verifyPayment_def respond_400 split: option.splits)

lemma verifyPayment_valid:
  assumes "razorpay_order_id b = Some oid" "oid \<noteq> []" "razorpay_payment_id b = Some pid"
    "pid \<noteq> []" "truthy (razorpay_signature b)" "items b \<noteq> NoItems" "truthy (address b)"
    "truthy (total b)"
  shows "verifyPayment e b w =
             tryCatch (verifyPayment_try e oid pid (razorpay_signature b) (items b) (address b) (total b) w)
               (\<lambda>err w'. respond 500 (ErrorReply (''Error verifying payment: '' @ err)) w')"
  using assms by (simp add: verifyPayment_def)

lemma verifyPayment_try_mismatch:
  assumes "RAZORPAY_KEY_SECRET e = Some secret"
    and "signature \<noteq> Str (createHmac_sha256_hex e secret (oid @ ''|'' @ pid))"
  shows "verifyPayment_try e oid pid signature its addr tot w
         = (Returns \<lparr>statusCode = 400, json = ErrorReply ''Invalid payment signature''\<rparr>, w)"
  using assms by (auto simp: verifyPayment_try_def generatedSignature_def await_def respond_def)

lemma verifyPayment_try_match:
  assumes "RAZORPAY_KEY_SECRET e = Some secret"
    and "signature = Str (createHmac_sha256_hex e secret (oid @ ''|'' @ pid))"
  shows "verifyPayment_try e oid pid signature its addr tot w
         = await (saveOrderToDatabase e
                    \<lparr>order_items = its, order_address = addr,
                      order_paymentMethod = Str ''prepaid'', order_total = tot,
                      order_paymentId = Str pid, order_razorpayOrderId = Str oid,
                      order_status = Str ''confirmed'', order_createdAt = None\<rparr> w)
             (\<lambda>insertedId w1.
                await (sendNotifications e addr its tot (Str ''prepaid'') (Str pid) w1)
                  (\<lambda>notifications w2.
                     respond 200 (OrderReply ''Payment verified and order saved successfully''
                                    insertedId notifications) w2))"
  using assms by (simp add: verifyPayment_try_def generatedSignature_def await_Returns Let_def)

lemma verifyPayment_try_orders:
  "\<exists>r w'. verifyPayment_try e oid pid signature its addr tot w = (r, w')
     \<and> (\<forall>resp. r = Returns resp \<longrightarrow> statusCode resp = 200 \<or> w' = w)
     \<and> (orders w' = orders w
         \<or> orders w' = orders w @
                [\<lparr>order_items = its, order_address = addr,
                  order_paymentMethod = Str ''prepaid'', order_total = tot,
                  order_paymentId = Str pid, order_razorpayOrderId = Str oid,
                  order_status = Str ''confirmed'', order_createdAt = Some (now e)\<rparr>])"
proof (cases "RAZORPAY_KEY_SECRET e")
  case None
  then show ?thesis
    by (simp add: verifyPayment_try_def generatedSignature_def await_def)
next
  case (Some secret)
  show ?thesis
  proof (cases "signature = Str (createHmac_sha256_hex e secret (oid @ ''|'' @ pid))")
    case True
    let ?draft = "\<lparr>order_items = its, order_address = addr,
                  order_paymentMethod = Str ''prepaid'', order_total = tot,
                  order_paymentId = Str pid, order_razorpayOrderId = Str oid,
                  order_status = Str ''confirmed'', order_createdAt = None\<rparr>"
    from persist_notify_shape [of e ?draft w addr its tot "Str ''prepaid''" "Str pid"
           "''Payment verified and order saved successfully''"]
    show ?thesis
      unfolding verifyPayment_try_match [OF Some True] by auto
  next
    case False
    from verifyPayment_try_mismatch [OF Some False] show ?thesis by simp
  qed
qed

lemma verifyPayment_orders:
  "orders (snd (verifyPayment e b w)) = orders w
   \<or> (\<exists>d pid. orders (snd (verifyPayment e b w)) = orders w @ [d]
         \<and> order_paymentMethod d = Str ''prepaid'' \<and> order_paymentId d = Str pid \<and> pid \<noteq> []
         \<and> order_status d = Str ''confirmed'')"
proof -
  from verifyPayment_cases [of e b w]
  consider (rejected) msg where
      "verifyPayment e b w = (Returns \<lparr>statusCode = 400, json = ErrorReply msg\<rparr>, w)"
    | (valid) oid pid where "pid \<noteq> []"
        "verifyPayment e b w =
             tryCatch (verifyPayment_try e oid pid (razorpay_signature b) (items b) (address b) (total b) w)
               (\<lambda>err w'. respond 500 (ErrorReply (''Error verifying payment: '' @ err)) w')"
    by blast
  then show ?thesis
  proof cases
    case rejected
    then show ?thesis by simp
  next
    case valid
    from verifyPayment_try_orders [of e oid pid "razorpay_signature b" "items b" "address b" "total b" w]
    obtain r w' where t: "verifyPayment_try e oid pid (razorpay_signature b) (items b) (address b) (total b) w = (r, w')"
      and o: "orders w' = orders w
         \<or> orders w' = orders w @
                [\<lparr>order_items = items b, order_address = address b,
                  order_paymentMethod = Str ''prepaid'', order_total = total b,
                  order_paymentId = Str pid, order_razorpayOrderId = Str oid,
                  order_status = Str ''confirmed'', order_createdAt = Some (now e)\<rparr>]"
      by blast
    have "snd (verifyPayment e b w) = w'"
      by (simp add: valid(2) tryCatch_respond [OF t])
    with o valid(1) show ?thesis by auto
  qed
qed

lemma saveOrder_orders:
  "orders (snd (saveOrder e b w)) = orders w
   \<or> (\<exists>d. orders (snd (saveOrder e b w)) = orders w @ [d]
         \<and> (paymentIdPresent d \<longrightarrow> order_paymentMethod d = Str ''prepaid''))"
proof (cases "\<exists>msg. saveOrder e b w = (Returns \<lparr>statusCode = 400, json = ErrorReply msg\<rparr>, w)")
  case True
  then show ?thesis by auto
next
  case False
  then have its: "items b \<noteq> NoItems"
    by (auto simp: saveOrder_def respond_400)
  let ?draft = "\<lparr>order_items = items b, order_address = address b,
                order_paymentMethod = paymentMethod b, order_total = total b,
                order_paymentId = (if paymentMethod b = Str ''prepaid'' then paymentId b else Null),
                order_razorpayOrderId = Undefined, order_status = status b,
                order_createdAt = None\<rparr>"
  let ?pipe = "await (saveOrderToDatabase e ?draft w) (\<lambda>insertedId w1.
               await (sendNotifications e (address b) (items b) (total b) (paymentMethod b) (paymentId b) w1)
                 (\<lambda>notifications w2.
                   respond 200 (OrderReply ''Order saved successfully'' insertedId notifications) w2))"
  have eq: "saveOrder e b w =
      tryCatch ?pipe (\<lambda>err w'. respond 500 (ErrorReply ''Failed to save order to database'') w')"
    using False its by (auto simp: saveOrder_def respond_400 Let_def split: if_splits)
  from persist_notify_shape [of e ?draft w "address b" "items b" "total b" "paymentMethod b" "paymentId b"
         "''Order saved successfully''"]
  obtain r w' where t: "?pipe = (r, w')"
    and o: "orders w' = orders w \<or> orders w' = orders w @ [?draft\<lparr>order_createdAt := Some (now e)\<rparr>]"
    by blast
  have "snd (saveOrder e b w) = w'"
    unfolding eq using tryCatch_respond [OF t, of 500 "\<lambda>err. ErrorReply ''Failed to save order to database''"]
    by simp
  with o show ?thesis by (auto simp: paymentIdPresent_def)
qed

lemma createOrder_total_exact:
  assumes "calculatedTotal (ItemsArray (map ElemObject its)) = Inr c" "strictlyEquals c tot"
    and "withinExactRange 0 its"
  shows "strictlyEquals (Fin (exactCountedSum its)) tot"
proof -
  from assms(1) have "c = sumWithCountedQuantities its"
    unfolding calculatedTotal_counted by simp
  with assms(2) sumWithCountedQuantities_exact [OF assms(3)] show ?thesis
    by simp
qed

text \<open>
  C6, as the code has it. Each handler persists at most one order. One persisted by
  \<^verbatim>\<open>createOrder\<close> has no payment id, status \<^verbatim>\<open>confirmed\<close> and a total strictly equal to the sum
  the code computes from its items (price times \<^verbatim>\<open>quantity || 1\<close>, in double arithmetic); where
  the items are objects whose prices, counted quantities, products and partial sums are
  whole numbers of magnitude at most \<open>2 ^ 53\<close>, that is the sum of mathematics. One persisted
  by \<^verbatim>\<open>verifyPayment\<close> has a payment id, is prepaid and has status \<^verbatim>\<open>confirmed\<close>; both satisfy
  the invariant on the payment id. One persisted by \<^verbatim>\<open>saveOrder\<close> has a payment id only when
  it is prepaid.
\<close>

theorem persisted_orders_by_handler:
  "(orders (snd (createOrder e b w)) = orders w
    \<or> (\<exists>d. orders (snd (createOrder e b w)) = orders w @ [d]
          \<and> paymentIdInvariant d \<and> order_paymentId d = Null \<and> order_status d = Str ''confirmed''
          \<and> (\<exists>c. calculatedTotal (order_items d) = Inr c \<and> strictlyEquals c (order_total d))
          \<and> (\<forall>its. order_items d = ItemsArray (map ElemObject its) \<and> withinExactRange 0 its
                \<longrightarrow> strictlyEquals (Fin (exactCountedSum its)) (order_total d))))
   \<and> (orders (snd (verifyPayment e b w)) = orders w
      \<or> (\<exists>d. orders (snd (verifyPayment e b w)) = orders w @ [d]
            \<and> paymentIdInvariant d \<and> paymentIdPresent d \<and> order_status d = Str ''confirmed''))
   \<and> (orders (snd (saveOrder e b w)) = orders w
      \<or> (\<exists>d. orders (snd (saveOrder e b w)) = orders w @ [d]
            \<and> (paymentIdPresent d \<longrightarrow> order_paymentMethod d = Str ''prepaid'')))"
proof (intro conjI)
  from createOrder_orders [of e b w]
  consider "orders (snd (createOrder e b w)) = orders w"
    | d c where "orders (snd (createOrder e b w)) = orders w @ [d]"
        "order_paymentMethod d = Str ''cod''" "order_paymentId d = Null"
        "order_status d = Str ''confirmed''"
        "calculatedTotal (order_items d) = Inr c" "strictlyEquals c (order_total d)"
    by blast
  then show "orders (snd (createOrder e b w)) = orders w
    \<or> (\<exists>d. orders (snd (createOrder e b w)) = orders w @ [d]
          \<and> paymentIdInvariant d \<and> order_paymentId d = Null \<and> order_status d = Str ''confirmed''
          \<and> (\<exists>c. calculatedTotal (order_items d) = Inr c \<and> strictlyEquals c (order_total d))
          \<and> (\<forall>its. order_items d = ItemsArray (map ElemObject its) \<and> withinExactRange 0 its
                \<longrightarrow> strictlyEquals (Fin (exactCountedSum its)) (order_total d)))"
  proof cases
    case 1
    then show ?thesis by simp
  next
    case 2
    have inv: "paymentIdInvariant d"
      using 2(2,3) by (simp add: paymentIdInvariant_def paymentIdPresent_def)
    have exact: "\<forall>its. order_items d = ItemsArray (map ElemObject its) \<and> withinExactRange 0 its
                \<longrightarrow> strictlyEquals (Fin (exactCountedSum its)) (order_total d)"
      using 2(5,6) createOrder_total_exact by auto
    from 2(1,3,4,5,6) inv exact show ?thesis by blast
  qed
  from verifyPayment_orders [of e b w]
  show "orders (snd (verifyPayment e b w)) = orders w
      \<or> (\<exists>d. orders (snd (verifyPayment e b w)) = orders w @ [d]
            \<and> paymentIdInvariant d \<and> paymentIdPresent d \<and> order_status d = Str ''confirmed'')"
    by (auto simp: paymentIdInvariant_def paymentIdPresent_def)
  from saveOrder_orders [of e b w]
  show "orders (snd (saveOrder e b w)) = orders w
      \<or> (\<exists>d. orders (snd (saveOrder e b w)) = orders w @ [d]
            \<and> (paymentIdPresent d \<longrightarrow> order_paymentMethod d = Str ''prepaid''))"
    by simp
qed

text \<open>The theorem at three sample requests, each of which persists an order.\<close>

theorem persisted_orders_by_handler_witness:
  "orders (snd (createOrder sampleEnv codBody emptyWorld)) \<noteq> orders emptyWorld
   \<and> (\<exists>d. orders (snd (createOrder sampleEnv codBody emptyWorld)) = orders emptyWorld @ [d]
          \<and> paymentIdInvariant d \<and> order_paymentId d = Null \<and> order_status d = Str ''confirmed''
          \<and> (\<exists>c. calculatedTotal (order_items d) = Inr c \<and> strictlyEquals c (order_total d))
          \<and> order_items d
              = ItemsArray (map ElemObject [\<lparr>name = Str ''Book'', price = NNum 250, quantity = NNum 2\<rparr>])
          \<and> withinExactRange 0 [\<lparr>name = Str ''Book'', price = NNum 250, quantity = NNum 2\<rparr>]
          \<and> strictlyEquals
               (Fin (exactCountedSum [\<lparr>name = Str ''Book'', price = NNum 250, quantity = NNum 2\<rparr>]))
               (order_total d))
   \<and> exactCountedSum [\<lparr>name = Str ''Book'', price = NNum 250, quantity = NNum 2\<rparr>] = 500
   \<and> orders (snd (verifyPayment sampleEnv confirmBody emptyWorld)) \<noteq> orders emptyWorld
   \<and> (\<exists>d. orders (snd (verifyPayment sampleEnv confirmBody emptyWorld)) = orders emptyWorld @ [d]
          \<and> paymentIdInvariant d \<and> paymentIdPresent d \<and> order_status d = Str ''confirmed'')
   \<and> orders (snd (saveOrder sampleEnv legacyBody emptyWorld)) \<noteq> orders emptyWorld
   \<and> (\<exists>d. orders (snd (saveOrder sampleEnv legacyBody emptyWorld)) = orders emptyWorld @ [d]
          \<and> paymentIdPresent d \<and> order_paymentMethod d = Str ''prepaid'')"
proof -
  let ?its = "[\<lparr>name = Str ''Book'', price = NNum 250, quantity = NNum 2\<rparr>]"
  have a: "orders (snd (createOrder sampleEnv codBody emptyWorld)) \<noteq> orders emptyWorld"
    by (simp add: sample_defs controller_defs)
  have a': "map order_items (orders (snd (createOrder sampleEnv codBody emptyWorld)))
      = [ItemsArray (map ElemObject ?its)]"
    by (simp add: sample_defs controller_defs)
  have x: "withinExactRange 0 ?its"
    by (simp add: wholeAmount_def)
  have s: "exactCountedSum ?its = 500"
    by (simp add: exactCountedSum_def)
  have b: "orders (snd (verifyPayment sampleEnv confirmBody emptyWorld)) \<noteq> orders emptyWorld"
    by (simp add: sample_defs controller_defs)
  have c: "orders (snd (saveOrder sampleEnv legacyBody emptyWorld))
       = orders emptyWorld @
         [\<lparr>order_items = sampleItems, order_address = sampleAddress,
           order_paymentMethod = Str ''prepaid'', order_total = Num 5,
           order_paymentId = Str ''pay_1'', order_razorpayOrderId = Undefined,
           order_status = Str ''pending'', order_createdAt = Some 1700000000000\<rparr>]"
    by (simp add: sample_defs controller_defs)
  from c have c': "orders (snd (saveOrder sampleEnv legacyBody emptyWorld)) \<noteq> orders emptyWorld"
    by simp
  from c have c'': "\<exists>d. orders (snd (saveOrder sampleEnv legacyBody emptyWorld)) = orders emptyWorld @ [d]
          \<and> paymentIdPresent d \<and> order_paymentMethod d = Str ''prepaid''"
    by (simp add: paymentIdPresent_def)
  note t = persisted_orders_by_handler [of sampleEnv codBody emptyWorld]
  note u = persisted_orders_by_handler [of sampleEnv confirmBody emptyWorld]
  from t a obtain d where d: "orders (snd (createOrder sampleEnv codBody emptyWorld)) = orders emptyWorld @ [d]"
    and d1: "paymentIdInvariant d" "order_paymentId d = Null" "order_status d = Str ''confirmed''"
      "\<exists>c. calculatedTotal (order_items d) = Inr c \<and> strictlyEquals c (order_total d)"
    and d2: "\<forall>its. order_items d = ItemsArray (map ElemObject its) \<and> withinExactRange 0 its
                \<longrightarrow> strictlyEquals (Fin (exactCountedSum its)) (order_total d)"
    by blast
  from a' d have i: "order_items d = ItemsArray (map ElemObject ?its)"
    by (simp add: emptyWorld_def)
  from d2 i x have e: "strictlyEquals (Fin (exactCountedSum ?its)) (order_total d)"
    by blast
  from d d1 i x e
  have ta: "\<exists>d. orders (snd (createOrder sampleEnv codBody emptyWorld)) = orders emptyWorld @ [d]
          \<and> paymentIdInvariant d \<and> order_paymentId d = Null \<and> order_status d = Str ''confirmed''
          \<and> (\<exists>c. calculatedTotal (order_items d) = Inr c \<and> strictlyEquals c (order_total d))
          \<and> order_items d = ItemsArray (map ElemObject ?its)
          \<and> withinExactRange 0 ?its
          \<and> strictlyEquals (Fin (exactCountedSum ?its)) (order_total d)"
    by blast
  from u b have ub: "\<exists>d. orders (snd (verifyPayment sampleEnv confirmBody emptyWorld)) = orders emptyWorld @ [d]
          \<and> paymentIdInvariant d \<and> paymentIdPresent d \<and> order_status d = Str ''confirmed''"
    by blast
  from a ta s b ub c' c'' show ?thesis by blast
qed

text \<open>
  C6 as it is worded fails: \<^verbatim>\<open>saveOrder\<close> persists a prepaid order with a payment id, status
  \<^verbatim>\<open>pending\<close> and total 5 for items worth 500, and \<^verbatim>\<open>verifyPayment\<close> persists an order with
  total 1 for items worth 500. Neither handler compares the total with the items. And
  \<^verbatim>\<open>createOrder\<close>, which does compare, persists a total of 100 for one item of price 100 and
  quantity 0, whose price times quantity is 0.
\<close>

theorem legacy_and_confirm_persist_orders_breaking_invariants:
  "orders (snd (saveOrder sampleEnv legacyBody emptyWorld))
     = [\<lparr>order_items = sampleItems, order_address = sampleAddress,
         order_paymentMethod = Str ''prepaid'', order_total = Num 5,
         order_paymentId = Str ''pay_1'', order_razorpayOrderId = Undefined,
         order_status = Str ''pending'', order_createdAt = Some 1700000000000\<rparr>]
   \<and> \<not> paymentIdInvariant
         \<lparr>order_items = sampleItems, order_address = sampleAddress,
          order_paymentMethod = Str ''prepaid'', order_total = Num 5,
          order_paymentId = Str ''pay_1'', order_razorpayOrderId = Undefined,
          order_status = Str ''pending'', order_createdAt = Some 1700000000000\<rparr>
   \<and> \<not> totalInvariant
         \<lparr>order_items = sampleItems, order_address = sampleAddress,
          order_paymentMethod = Str ''prepaid'', order_total = Num 5,
          order_paymentId = Str ''pay_1'', order_razorpayOrderId = Undefined,
          order_status = Str ''pending'', order_createdAt = Some 1700000000000\<rparr>
   \<and> orders (snd (verifyPayment sampleEnv (confirmBody\<lparr>total := Num 1\<rparr>) emptyWorld))
     = [\<lparr>order_items = sampleItems, order_address = sampleAddress,
         order_paymentMethod = Str ''prepaid'', order_total = Num 1,
         order_paymentId = Str ''pay_1'', order_razorpayOrderId = Str ''order_1'',
         order_status = Str ''confirmed'', order_createdAt = Some 1700000000000\<rparr>]
   \<and> \<not> orderInvariant
         \<lparr>order_items = sampleItems, order_address = sampleAddress,
          order_paymentMethod = Str ''prepaid'', order_total = Num 1,
          order_paymentId = Str ''pay_1'', order_razorpayOrderId = Str ''order_1'',
          order_status = Str ''confirmed'', order_createdAt = Some 1700000000000\<rparr>
   \<and> orders (snd (createOrder sampleEnv (codBody\<lparr>items := zeroQuantityItems, total := Num 100\<rparr>)
                     emptyWorld))
     = [\<lparr>order_items = zeroQuantityItems, order_address = sampleAddress,
         order_paymentMethod = Str ''cod'', order_total = Num 100,
         order_paymentId = Null, order_razorpayOrderId = Undefined,
         order_status = Str ''confirmed'', order_createdAt = Some 1700000000000\<rparr>]
   \<and> \<not> totalInvariant
         \<lparr>order_items = zeroQuantityItems, order_address = sampleAddress,
          order_paymentMethod = Str ''cod'', order_total = Num 100,
          order_paymentId = Null, order_razorpayOrderId = Undefined,
          order_status = Str ''confirmed'', order_createdAt = Some 1700000000000\<rparr>"
proof -
  have s: "sumPriceTimesQuantity sampleItems = Some 500"
    by (simp add: sampleItems_def)
  have z: "sumPriceTimesQuantity zeroQuantityItems = Some 0"
    by (simp add: zeroQuantityItems_def)
  have a: "orders (snd (saveOrder sampleEnv legacyBody emptyWorld))
     = [\<lparr>order_items = sampleItems, order_address = sampleAddress,
         order_paymentMethod = Str ''prepaid'', order_total = Num 5,
         order_paymentId = Str ''pay_1'', order_razorpayOrderId = Undefined,
         order_status = Str ''pending'', order_createdAt = Some 1700000000000\<rparr>]"
    by (simp add: sample_defs controller_defs)
  have b: "\<not> paymentIdInvariant
         \<lparr>order_items = sampleItems, order_address = sampleAddress,
          order_paymentMethod = Str ''prepaid'', order_total = Num 5,
          order_paymentId = Str ''pay_1'', order_razorpayOrderId = Undefined,
          order_status = Str ''pending'', order_createdAt = Some 1700000000000\<rparr>"
    by (simp add: paymentIdInvariant_def paymentIdPresent_def)
  have c: "\<not> totalInvariant
         \<lparr>order_items = sampleItems, order_address = sampleAddress,
          order_paymentMethod = Str ''prepaid'', order_total = Num 5,
          order_paymentId = Str ''pay_1'', order_razorpayOrderId = Undefined,
          order_status = Str ''pending'', order_createdAt = Some 1700000000000\<rparr>"
    by (simp add: totalInvariant_def s)
  have d: "orders (snd (verifyPayment sampleEnv (confirmBody\<lparr>total := Num 1\<rparr>) emptyWorld))
     = [\<lparr>order_items = sampleItems, order_address = sampleAddress,
         order_paymentMethod = Str ''prepaid'', order_total = Num 1,
         order_paymentId = Str ''pay_1'', order_razorpayOrderId = Str ''order_1'',
         order_status = Str ''confirmed'', order_createdAt = Some 1700000000000\<rparr>]"
    by (simp add: sample_defs controller_defs)
  have e: "\<not> orderInvariant
         \<lparr>order_items = sampleItems, order_address = sampleAddress,
          order_paymentMethod = Str ''prepaid'', order_total = Num 1,
          order_paymentId = Str ''pay_1'', order_razorpayOrderId = Str ''order_1'',
          order_status = Str ''confirmed'', order_createdAt = Some 1700000000000\<rparr>"
    by (simp add: orderInvariant_def totalInvariant_def s)
  have f: "orders (snd (createOrder sampleEnv (codBody\<lparr>items := zeroQuantityItems, total := Num 100\<rparr>)
                     emptyWorld))
     = [\<lparr>order_items = zeroQuantityItems, order_address = sampleAddress,
         order_paymentMethod = Str ''cod'', order_total = Num 100,
         order_paymentId = Null, order_razorpayOrderId = Undefined,
         order_status = Str ''confirmed'', order_createdAt = Some 1700000000000\<rparr>]"
    by (simp add: sample_defs controller_defs)
  have g: "\<not> totalInvariant
         \<lparr>order_items = zeroQuantityItems, order_address = sampleAddress,
          order_paymentMethod = Str ''cod'', order_total = Num 100,
          order_paymentId = Null, order_razorpayOrderId = Undefined,
          order_status = Str ''confirmed'', order_createdAt = Some 1700000000000\<rparr>"
    by (simp add: totalInvariant_def z)
  from a b c d e f g show ?thesis by blast
qed

section \<open>Payment confirmation (C2, C3)\<close>

text \<open>
  C2. For a confirm-payment request that carries all its fields, with the gateway secret
  configured and a store that accepts inserts, \<^verbatim>\<open>verifyPayment\<close> persists an order if and
  only if the supplied signature is the recomputed HMAC; on a mismatch it answers 400 and
  leaves the world as it was (no insert, no send attempt).
\<close>

theorem verifyPayment_persists_iff_signature_matches:
  assumes "razorpay_order_id b = Some oid" "oid \<noteq> []"
    and "razorpay_payment_id b = Some pid" "pid \<noteq> []"
    and "truthy (razorpay_signature b)"
    and "items b \<noteq> NoItems" "truthy (address b)" "truthy (total b)"
    and "RAZORPAY_KEY_SECRET e = Some secret"
    and "dbConnected e" "\<forall>d. \<exists>i. insertOne e d = Inr i"
  shows "((orders (snd (verifyPayment e b w)) \<noteq> orders w)
          = (razorpay_signature b = Str (createHmac_sha256_hex e secret (oid @ ''|'' @ pid))))
         \<and> (razorpay_signature b = Str (createHmac_sha256_hex e secret (oid @ ''|'' @ pid))
            \<longrightarrow> orders (snd (verifyPayment e b w))
                = orders w @
                  [\<lparr>order_items = items b, order_address = address b,
                    order_paymentMethod = Str ''prepaid'', order_total = total b,
                    order_paymentId = Str pid, order_razorpayOrderId = Str oid,
                    order_status = Str ''confirmed'', order_createdAt = Some (now e)\<rparr>])
         \<and> (razorpay_signature b \<noteq> Str (createHmac_sha256_hex e secret (oid @ ''|'' @ pid))
            \<longrightarrow> verifyPayment e b w
                = (Returns \<lparr>statusCode = 400, json = ErrorReply ''Invalid payment signature''\<rparr>, w))"
proof -
  let ?expected = "Str (createHmac_sha256_hex e secret (oid @ ''|'' @ pid))"
  let ?draft = "\<lparr>order_items = items b, order_address = address b,
                order_paymentMethod = Str ''prepaid'', order_total = total b,
                order_paymentId = Str pid, order_razorpayOrderId = Str oid,
                order_status = Str ''confirmed'', order_createdAt = None\<rparr>"
  let ?d = "\<lparr>order_items = items b, order_address = address b,
                order_paymentMethod = Str ''prepaid'', order_total = total b,
                order_paymentId = Str pid, order_razorpayOrderId = Str oid,
                order_status = Str ''confirmed'', order_createdAt = Some (now e)\<rparr>"
  note valid = verifyPayment_valid [OF assms(1-8), of e w]
  have match: "orders (snd (verifyPayment e b w)) = orders w @ [?d]"
    if m: "razorpay_signature b = ?expected"
  proof -
    from assms(11) obtain i where i: "insertOne e (?draft\<lparr>order_createdAt := Some (now e)\<rparr>) = Inr i"
      by blast
    from persist_notify_saved [of e ?draft i w "address b" "items b" "total b" "Str ''prepaid''"
           "Str pid" "''Payment verified and order saved successfully''", OF assms(10) i]
    obtain r evs where p: "verifyPayment_try e oid pid (razorpay_signature b) (items b) (address b) (total b) w
        = (r, w\<lparr>orders := orders w @ [?draft\<lparr>order_createdAt := Some (now e)\<rparr>],
                 trace := trace w @ evs\<rparr>)"
      unfolding verifyPayment_try_match [OF assms(9) m] by blast
    show ?thesis
      unfolding valid by (simp add: tryCatch_respond [OF p])
  qed
  have mismatch: "verifyPayment e b w
       = (Returns \<lparr>statusCode = 400, json = ErrorReply ''Invalid payment signature''\<rparr>, w)"
    if m: "razorpay_signature b \<noteq> ?expected"
    unfolding valid by (simp add: verifyPayment_try_mismatch [OF assms(9) m] tryCatch_Returns)
  have iff: "(orders (snd (verifyPayment e b w)) \<noteq> orders w) = (razorpay_signature b = ?expected)"
  proof (cases "razorpay_signature b = ?expected")
    case True
    with match show ?thesis by simp
  next
    case False
    with mismatch show ?thesis by simp
  qed
  from iff match mismatch show ?thesis by blast
qed

text \<open>The theorem at a request with the right signature and at one with a forged one.\<close>

theorem verifyPayment_persists_iff_signature_matches_witness:
  "truthy (razorpay_signature confirmBody) \<and> truthy (address confirmBody)
   \<and> truthy (total confirmBody) \<and> dbConnected sampleEnv
   \<and> razorpay_signature confirmBody = Str (sampleDigest ''secret'' (''order_1'' @ ''|'' @ ''pay_1''))
   \<and> orders (snd (verifyPayment sampleEnv confirmBody emptyWorld))
       = [\<lparr>order_items = sampleItems, order_address = sampleAddress,
           order_paymentMethod = Str ''prepaid'', order_total = Num 500,
           order_paymentId = Str ''pay_1'', order_razorpayOrderId = Str ''order_1'',
           order_status = Str ''confirmed'', order_createdAt = Some 1700000000000\<rparr>]
   \<and> verifyPayment sampleEnv (confirmBody\<lparr>razorpay_signature := Str ''forged''\<rparr>) emptyWorld
       = (Returns \<lparr>statusCode = 400, json = ErrorReply ''Invalid payment signature''\<rparr>, emptyWorld)"
proof -
  let ?f = "confirmBody\<lparr>razorpay_signature := Str ''forged''\<rparr>"
  have h1: "razorpay_order_id confirmBody = Some ''order_1''" "''order_1'' \<noteq> []"
    "razorpay_payment_id confirmBody = Some ''pay_1''" "''pay_1'' \<noteq> []"
    by (simp_all add: confirmBody_def)
  have h5: "truthy (razorpay_signature confirmBody)"
    by (simp add: confirmBody_def sampleDigest_def)
  have h6: "items confirmBody \<noteq> NoItems"
    by (simp add: confirmBody_def codBody_def sampleItems_def)
  have h7: "truthy (address confirmBody)" by (simp add: confirmBody_def codBody_def sampleAddress_def)
  have h8: "truthy (total confirmBody)"
    by (simp add: confirmBody_def codBody_def round64_numeral)
  have h9: "RAZORPAY_KEY_SECRET sampleEnv = Some ''secret''" by (simp add: sampleEnv_def)
  have h10: "dbConnected sampleEnv" by (simp add: sampleEnv_def)
  have h11: "\<forall>d. \<exists>i. insertOne sampleEnv d = Inr i" by (simp add: sampleEnv_def)
  have g1: "razorpay_order_id ?f = Some ''order_1''" "razorpay_payment_id ?f = Some ''pay_1''"
    "truthy (razorpay_signature ?f)" "items ?f \<noteq> NoItems" "truthy (address ?f)"
    "truthy (total ?f)"
    using h1 h6 h7 h8 by simp_all
  have sig: "razorpay_signature confirmBody
      = Str (createHmac_sha256_hex sampleEnv ''secret'' (''order_1'' @ ''|'' @ ''pay_1''))"
    by (simp add: confirmBody_def sampleEnv_def)
  have forged: "razorpay_signature ?f
      \<noteq> Str (createHmac_sha256_hex sampleEnv ''secret'' (''order_1'' @ ''|'' @ ''pay_1''))"
    by (simp add: sampleEnv_def sampleDigest_def)
  from verifyPayment_persists_iff_signature_matches
         [OF h1 h5 h6 h7 h8 h9 h10 h11, of emptyWorld] sig
  have a: "orders (snd (verifyPayment sampleEnv confirmBody emptyWorld))
       = [\<lparr>order_items = sampleItems, order_address = sampleAddress,
           order_paymentMethod = Str ''prepaid'', order_total = Num 500,
           order_paymentId = Str ''pay_1'', order_razorpayOrderId = Str ''order_1'',
           order_status = Str ''confirmed'', order_createdAt = Some 1700000000000\<rparr>]"
    by (simp add: confirmBody_def codBody_def emptyWorld_def sampleEnv_def)
  from verifyPayment_persists_iff_signature_matches
         [OF g1(1) h1(2) g1(2) h1(4) g1(3-6) h9 h10 h11, of emptyWorld] forged
  have b: "verifyPayment sampleEnv ?f emptyWorld
       = (Returns \<lparr>statusCode = 400, json = ErrorReply ''Invalid payment signature''\<rparr>, emptyWorld)"
    by blast
  have s: "razorpay_signature confirmBody = Str (sampleDigest ''secret'' (''order_1'' @ ''|'' @ ''pay_1''))"
    by (simp add: confirmBody_def)
  from h5 h7 h8 h10 s a b show ?thesis by blast
qed

lemma flipped_char_differs:
  assumes "k < 8"
  shows "char_of (flip_bit k (of_char c :: nat)) \<noteq> c"
proof
  assume "char_of (flip_bit k (of_char c :: nat)) = c"
  then have "of_char (char_of (flip_bit k (of_char c :: nat))) = (of_char c :: nat)"
    by simp
  then have "take_bit 8 (flip_bit k (of_char c :: nat)) = (of_char c :: nat)"
    by (simp add: take_bit_eq_mod)
  then have "bit (take_bit 8 (flip_bit k (of_char c :: nat))) k = bit (of_char c :: nat) k"
    by simp
  with assms show False
    by (simp add: bit_take_bit_iff bit_flip_bit_iff)
qed

lemma flipBit_differs:
  assumes "i < length s" "k < 8"
  shows "flipBit i k s \<noteq> s"
proof
  assume "flipBit i k s = s"
  then have "flipBit i k s ! i = s ! i" by simp
  with assms(1) have "char_of (flip_bit k (of_char (s ! i) :: nat)) = s ! i"
    by (simp add: flipBit_def)
  with flipped_char_differs [OF assms(2), of "s ! i"] show False by simp
qed

lemma flipBit_length: "length (flipBit i k s) = length s"
  by (simp add: flipBit_def)

text \<open>
  C3. With the order id, the payment id and the secret fixed: the hex digest of
  \<^verbatim>\<open>orderId + "|" + paymentId\<close> is accepted as signature (the answer is never 400); every
  other signature is answered 400 and changes nothing; in particular the digest with any
  single bit of any of its characters flipped is rejected as an invalid signature.
\<close>

theorem signature_verification_symmetric:
  assumes "razorpay_order_id b = Some oid" "oid \<noteq> []"
    and "razorpay_payment_id b = Some pid" "pid \<noteq> []"
    and "items b \<noteq> NoItems" "truthy (address b)" "truthy (total b)"
    and "RAZORPAY_KEY_SECRET e = Some secret"
    and "expected = createHmac_sha256_hex e secret (oid @ ''|'' @ pid)"
    and "length expected = 64"
  shows "(\<forall>resp. fst (verifyPayment e (b\<lparr>razorpay_signature := Str expected\<rparr>) w) = Returns resp
            \<longrightarrow> statusCode resp \<noteq> 400)
         \<and> (\<forall>signature. signature \<noteq> Str expected
              \<longrightarrow> (\<exists>msg. verifyPayment e (b\<lparr>razorpay_signature := signature\<rparr>) w
                         = (Returns \<lparr>statusCode = 400, json = ErrorReply msg\<rparr>, w)))
         \<and> (\<forall>i k. i < length expected \<and> k < 8
              \<longrightarrow> verifyPayment e (b\<lparr>razorpay_signature := Str (flipBit i k expected)\<rparr>) w
                  = (Returns \<lparr>statusCode = 400,
                              json = ErrorReply ''Invalid payment signature''\<rparr>, w))"
proof (intro conjI allI impI)
  fix resp :: response
  let ?b = "b\<lparr>razorpay_signature := Str expected\<rparr>"
  assume r: "fst (verifyPayment e ?b w) = Returns resp"
  have t: "truthy (razorpay_signature ?b)"
    using assms(10) by auto
  have valid: "verifyPayment e ?b w =
             tryCatch (verifyPayment_try e oid pid (Str expected) (items b) (address b) (total b) w)
               (\<lambda>err w'. respond 500 (ErrorReply (''Error verifying payment: '' @ err)) w')"
    using verifyPayment_valid [of ?b oid pid e w] assms(1-7) t by simp
  let ?draft = "\<lparr>order_items = items b, order_address = address b,
                order_paymentMethod = Str ''prepaid'', order_total = total b,
                order_paymentId = Str pid, order_razorpayOrderId = Str oid,
                order_status = Str ''confirmed'', order_createdAt = None\<rparr>"
  from persist_notify_shape [of e ?draft w "address b" "items b" "total b" "Str ''prepaid''" "Str pid"
         "''Payment verified and order saved successfully''"]
  obtain r' w' where p: "verifyPayment_try e oid pid (Str expected) (items b) (address b) (total b) w = (r', w')"
    and ok: "\<forall>resp. r' = Returns resp \<longrightarrow> statusCode resp = 200"
    unfolding verifyPayment_try_match [OF assms(8), of "Str expected" oid pid, simplified assms(9)[symmetric], OF refl]
    by blast
  from r show "statusCode resp \<noteq> 400"
    unfolding valid tryCatch_respond [OF p] using ok by (cases r') auto
next
  fix signature :: jsval
  assume ne: "signature \<noteq> Str expected"
  let ?b = "b\<lparr>razorpay_signature := signature\<rparr>"
  show "\<exists>msg. verifyPayment e ?b w = (Returns \<lparr>statusCode = 400, json = ErrorReply msg\<rparr>, w)"
  proof (cases "truthy signature")
    case False
    with assms(1,3) show ?thesis
      by (simp add: verifyPayment_def respond_400)
  next
    case True
    have valid: "verifyPayment e ?b w =
             tryCatch (verifyPayment_try e oid pid signature (items b) (address b) (total b) w)
               (\<lambda>err w'. respond 500 (ErrorReply (''Error verifying payment: '' @ err)) w')"
      using verifyPayment_valid [of ?b oid pid e w] assms(1-7) True by simp
    from ne have "signature \<noteq> Str (createHmac_sha256_hex e secret (oid @ ''|'' @ pid))"
      by (simp add: assms(9))
    from verifyPayment_try_mismatch [OF assms(8) this, of "items b" "address b" "total b" w]
    show ?thesis
      unfolding valid by (simp add: tryCatch_Returns)
  qed
next
  fix i k :: nat
  assume ik: "i < length expected \<and> k < 8"
  let ?s = "flipBit i k expected"
  let ?b = "b\<lparr>razorpay_signature := Str ?s\<rparr>"
  from ik have ne: "Str ?s \<noteq> Str expected"
    by (simp add: flipBit_differs)
  have t: "truthy (Str ?s)"
    using assms(10) flipBit_length [of i k expected] by auto
  have valid: "verifyPayment e ?b w =
             tryCatch (verifyPayment_try e oid pid (Str ?s) (items b) (address b) (total b) w)
               (\<lambda>err w'. respond 500 (ErrorReply (''Error verifying payment: '' @ err)) w')"
    using verifyPayment_valid [of ?b oid pid e w] assms(1-7) t by simp
  from ne have "Str ?s \<noteq> Str (createHmac_sha256_hex e secret (oid @ ''|'' @ pid))"
    by (simp add: assms(9))
  from verifyPayment_try_mismatch [OF assms(8) this, of "items b" "address b" "total b" w]
  show "verifyPayment e ?b w
       = (Returns \<lparr>statusCode = 400, json = ErrorReply ''Invalid payment signature''\<rparr>, w)"
    unfolding valid by (simp add: tryCatch_Returns)
qed

text \<open>The theorem at the sample request, and at its digest with the lowest bit of the first character flipped.\<close>

theorem signature_verification_symmetric_witness:
  "length (sampleDigest ''secret'' (''order_1'' @ ''|'' @ ''pay_1'')) = 64
   \<and> fst (verifyPayment sampleEnv
            (confirmBody\<lparr>razorpay_signature :=
                          Str (sampleDigest ''secret'' (''order_1'' @ ''|'' @ ''pay_1''))\<rparr>)
            emptyWorld)
       = Returns \<lparr>statusCode = 200,
                  json = OrderReply ''Payment verified and order saved successfully'' 7
                           [(''admin'', ''Sent''), (''customer'', ''Sent''), (''sms'', ''Sent'')]\<rparr>
   \<and> statusCode \<lparr>statusCode = 200,
                  json = OrderReply ''Payment verified and order saved successfully'' 7
                           [(''admin'', ''Sent''), (''customer'', ''Sent''), (''sms'', ''Sent'')]\<rparr>
       \<noteq> 400
   \<and> verifyPayment sampleEnv
         (confirmBody\<lparr>razorpay_signature :=
                       Str (flipBit 0 0 (sampleDigest ''secret'' (''order_1'' @ ''|'' @ ''pay_1'')))\<rparr>)
         emptyWorld
       = (Returns \<lparr>statusCode = 400, json = ErrorReply ''Invalid payment signature''\<rparr>,
          emptyWorld)"
proof -
  let ?D = "sampleDigest ''secret'' (''order_1'' @ ''|'' @ ''pay_1'')"
  let ?ok = "\<lparr>statusCode = 200,
                  json = OrderReply ''Payment verified and order saved successfully'' 7
                           [(''admin'', ''Sent''), (''customer'', ''Sent''), (''sms'', ''Sent'')]\<rparr>"
  have h1: "razorpay_order_id confirmBody = Some ''order_1''" "''order_1'' \<noteq> []"
    "razorpay_payment_id confirmBody = Some ''pay_1''" "''pay_1'' \<noteq> []"
    by (simp_all add: confirmBody_def)
  have h5: "items confirmBody \<noteq> NoItems"
    by (simp add: confirmBody_def codBody_def sampleItems_def)
  have h6: "truthy (address confirmBody)" by (simp add: confirmBody_def codBody_def sampleAddress_def)
  have h7: "truthy (total confirmBody)"
    by (simp add: confirmBody_def codBody_def round64_numeral)
  have h8: "RAZORPAY_KEY_SECRET sampleEnv = Some ''secret''" by (simp add: sampleEnv_def)
  have h9: "?D = createHmac_sha256_hex sampleEnv ''secret'' (''order_1'' @ ''|'' @ ''pay_1'')"
    by (simp add: sampleEnv_def)
  have h10: "length ?D = 64" by (simp add: sampleDigest_def)
  note t = signature_verification_symmetric [OF h1 h5 h6 h7 h8 h9 h10, of emptyWorld]
  have r: "fst (verifyPayment sampleEnv (confirmBody\<lparr>razorpay_signature := Str ?D\<rparr>) emptyWorld)
       = Returns ?ok"
    by (simp add: sample_defs controller_defs)
  with t have s: "statusCode ?ok \<noteq> 400" by blast
  from t h10 have f: "verifyPayment sampleEnv
         (confirmBody\<lparr>razorpay_signature := Str (flipBit 0 0 ?D)\<rparr>) emptyWorld
       = (Returns \<lparr>statusCode = 400, json = ErrorReply ''Invalid payment signature''\<rparr>,
          emptyWorld)"
    by simp
  from h10 r s f show ?thesis by blast
qed

end
